theory Spec2Isabelle
  imports Complex_Main "HOL-Library.AList"
begin

section \<open>Runtime values and errors (runtime.go)\<close>

text \<open>
  The interpreter computes with \<^verbatim>\<open>float64\<close>. The embedding uses exact rationals for
  them: the four operations and the comparisons agree with \<^verbatim>\<open>float64\<close> on the small
  whole numbers the statements below are evaluated at; rounding, infinities and
  not-a-number are outside the model. Go's \<^verbatim>\<open>int\<close> is modelled by \<open>int\<close>.
\<close>

datatype ValueKind = ValNumber | ValString

record Value =
  Kind :: ValueKind
  Num :: rat
  Str :: string

definition NumberValue :: "rat \<Rightarrow> Value" where
  "NumberValue n = \<lparr>Kind = ValNumber, Num = n, Str = ''''\<rparr>"

definition StringValue :: "string \<Rightarrow> Value" where
  "StringValue s = \<lparr>Kind = ValString, Num = 0, Str = s\<rparr>"

text \<open>
  Every \<^verbatim>\<open>fmt.Errorf\<close> of runtime.go is one constructor; \<open>RuntimeErrorAtLine\<close> is the
  wrapper \<^verbatim>\<open>"runtime error at line %d: %w"\<close> of \<^verbatim>\<open>Run\<close>.
\<close>

datatype error =
    TypeMismatchStringVariable string
  | TypeMismatchNumericVariable string
  | UnaryRequiresNumber string
  | UnsupportedUnaryOp string
  | ArithmeticRequiresNumbers
  | DivisionByZero
  | TypeMismatchInComparison
  | OrderedComparisonRequiresNumbers
  | UnsupportedOperator string
  | InputExpectsNumber
  | IfConditionMustBeNumeric
  | UndefinedLine int
  | UnknownStatementType
  | OperationLimitExceeded
  | RuntimeErrorAtLine int error

subsection \<open>evalBinary\<close>

definition evalBinary :: "string \<Rightarrow> Value \<Rightarrow> Value \<Rightarrow> error + Value" where
  "evalBinary op l r =
    (if op = ''+'' \<or> op = ''-'' \<or> op = ''*'' \<or> op = ''/'' then
       if Kind l \<noteq> ValNumber \<or> Kind r \<noteq> ValNumber then Inl ArithmeticRequiresNumbers
       else if op = ''+'' then Inr (NumberValue (Num l + Num r))
       else if op = ''-'' then Inr (NumberValue (Num l - Num r))
       else if op = ''*'' then Inr (NumberValue (Num l * Num r))
       else if Num r = 0 then Inl DivisionByZero
       else Inr (NumberValue (Num l / Num r))
     else if op = ''='' \<or> op = ''<>'' then
       if Kind l \<noteq> Kind r then Inl TypeMismatchInComparison
       else
         let ok = (if Kind l = ValNumber then Num l = Num r else Str l = Str r);
             ok = (if op = ''<>'' then \<not> ok else ok)
         in if ok then Inr (NumberValue 1) else Inr (NumberValue 0)
     else if op = ''<'' \<or> op = ''<='' \<or> op = ''>'' \<or> op = ''>='' then
       if Kind l \<noteq> ValNumber \<or> Kind r \<noteq> ValNumber then Inl OrderedComparisonRequiresNumbers
       else
         let ok = (if op = ''<'' then Num l < Num r
                   else if op = ''<='' then Num l \<le> Num r
                   else if op = ''>'' then Num l > Num r
                   else Num l > - Num r)
         in if ok then Inr (NumberValue 1) else Inr (NumberValue 0)
     else Inl (UnsupportedOperator op))"

section \<open>The variable environment (runtime.go)\<close>

text \<open>
  \<^verbatim>\<open>strings.ToUpper\<close> is modelled on bytes: the letters \<^verbatim>\<open>a\<close> to \<^verbatim>\<open>z\<close> are mapped to
  \<^verbatim>\<open>A\<close> to \<^verbatim>\<open>Z\<close> (the byte minus 32, that is, with bit 5 cleared) and every other byte
  is kept, which is what Go does on ASCII text.
\<close>

fun clear_bit5 :: "char \<Rightarrow> char" where
  "clear_bit5 (Char b0 b1 b2 b3 b4 b5 b6 b7) = Char b0 b1 b2 b3 b4 False b6 b7"

definition upper_byte :: "char \<Rightarrow> char" where
  "upper_byte c =
    (let n = (of_char c :: nat) in if 97 \<le> n \<and> n \<le> 122 then clear_bit5 c else c)"

definition ToUpper :: "string \<Rightarrow> string" where
  "ToUpper s = map upper_byte s"

definition HasSuffix :: "string \<Rightarrow> string \<Rightarrow> bool" where
  "HasSuffix s suf = (length suf \<le> length s \<and> drop (length s - length suf) s = suf)"

record Env =
  NumVars :: "string \<rightharpoonup> rat"
  StrVars :: "string \<rightharpoonup> string"

definition NewEnv :: Env where
  "NewEnv = \<lparr>NumVars = Map.empty, StrVars = Map.empty\<rparr>"

text \<open>Reading a Go map at a missing key gives the zero value of the element type.\<close>

definition Get :: "Env \<Rightarrow> string \<Rightarrow> Value" where
  "Get e name0 =
    (let name = ToUpper name0 in
     if HasSuffix name ''$''
     then StringValue (case StrVars e name of None \<Rightarrow> '''' | Some s \<Rightarrow> s)
     else NumberValue (case NumVars e name of None \<Rightarrow> 0 | Some n \<Rightarrow> n))"

definition Set :: "Env \<Rightarrow> string \<Rightarrow> Value \<Rightarrow> error + Env" where
  "Set e name0 v =
    (let name = ToUpper name0; isStr = HasSuffix name ''$'' in
     if isStr \<and> Kind v \<noteq> ValString then Inl (TypeMismatchStringVariable name)
     else if \<not> isStr \<and> Kind v \<noteq> ValNumber then Inl (TypeMismatchNumericVariable name)
     else if isStr then Inr (e\<lparr>StrVars := (StrVars e)(name \<mapsto> Str v)\<rparr>)
     else Inr (e\<lparr>NumVars := (NumVars e)(name \<mapsto> Num v)\<rparr>))"

section \<open>The syntax tree (ast.go)\<close>

datatype Expr =
    NumberLit rat
  | StringLit string
  | VarRef string
  | UnaryExpr string Expr
  | BinaryExpr string Expr Expr

text \<open>
  \<open>IfStmt\<close> keeps the four fields of the Go struct, in its order: \<^verbatim>\<open>Cond\<close>,
  \<^verbatim>\<open>ThenStmt\<close> (a nil interface is \<open>None\<close>), \<^verbatim>\<open>ThenLine\<close>, \<^verbatim>\<open>HasLine\<close>.
\<close>

datatype Stmt =
    RemStmt
  | LetStmt string Expr
  | PrintStmt "Expr list"
  | InputStmt string
  | IfStmt Expr "Stmt option" int bool
  | GotoStmt int
  | EndStmt

section \<open>Numbers as text (package strconv)\<close>

text \<open>
  \<^verbatim>\<open>strconv.ParseFloat\<close> and \<^verbatim>\<open>strconv.FormatFloat\<close> belong to Go's library. The
  model fixes them where their result is plain decimal notation and leaves the rest to
  two parameters:
  \<^item> \<open>ParseFloat\<close> reads digits with at most one point (at least one digit), which is
    every literal \<^verbatim>\<open>readNumber\<close> can hand to the parser; on any other text (signs,
    exponents, hexadecimal, infinities) it answers with \<open>ParseFloat_other\<close>;
  \<^item> \<open>FormatFloat\<close>, called with format \<^verbatim>\<open>'g'\<close> and precision \<^verbatim>\<open>-1\<close>, writes a
    whole number below one million with its decimal digits (a minus sign first when
    negative); any other number is written by \<open>FormatFloat_other\<close>.
\<close>

record strconv =
  ParseFloat_other :: "string \<Rightarrow> rat option"
  FormatFloat_other :: "rat \<Rightarrow> string"

definition isDigit :: "char \<Rightarrow> bool" where
  "isDigit ch = (48 \<le> (of_char ch :: nat) \<and> (of_char ch :: nat) \<le> 57)"

definition digit_val :: "char \<Rightarrow> nat" where
  "digit_val ch = of_char ch - 48"

definition digits_val :: "string \<Rightarrow> nat" where
  "digits_val ds = foldl (\<lambda>a ch. 10 * a + digit_val ch) 0 ds"

definition decimal_literal :: "string \<Rightarrow> rat option" where
  "decimal_literal s =
    (let a = takeWhile isDigit s; r = dropWhile isDigit s in
     if r = [] then (if a = [] then None else Some (of_nat (digits_val a)))
     else if hd r = CHR ''.'' \<and> list_all isDigit (tl r) \<and> (a \<noteq> [] \<or> tl r \<noteq> [])
       then Some (of_nat (digits_val (a @ tl r)) / 10 ^ length (tl r))
     else None)"

definition ParseFloat :: "strconv \<Rightarrow> string \<Rightarrow> rat option" where
  "ParseFloat L s =
    (case decimal_literal s of Some v \<Rightarrow> Some v | None \<Rightarrow> ParseFloat_other L s)"

definition digit_char :: "nat \<Rightarrow> char" where
  "digit_char d = ''0123456789'' ! d"

fun nat_digits :: "nat \<Rightarrow> nat \<Rightarrow> string" where
  "nat_digits 0 n = []"
| "nat_digits (Suc fuel) n =
    (if n < 10 then [digit_char n] else nat_digits fuel (n div 10) @ [digit_char (n mod 10)])"

text \<open>The decimal digits of a natural number; \<open>n\<close> has at most \<open>n + 1\<close> digits.\<close>

definition format_nat :: "nat \<Rightarrow> string" where
  "format_nat n = nat_digits (Suc n) n"

definition format_int :: "int \<Rightarrow> string" where
  "format_int i = (if i < 0 then CHR ''-'' # format_nat (nat (- i)) else format_nat (nat i))"

definition FormatFloat :: "strconv \<Rightarrow> rat \<Rightarrow> string" where
  "FormatFloat L v =
    (if v = of_int \<lfloor>v\<rfloor> \<and> \<bar>v\<bar> < 1000000 then format_int \<lfloor>v\<rfloor> else FormatFloat_other L v)"

definition Value_String :: "strconv \<Rightarrow> Value \<Rightarrow> string" where
  "Value_String L v = (case Kind v of ValNumber \<Rightarrow> FormatFloat L (Num v) | ValString \<Rightarrow> Str v)"

section \<open>The program table (Program)\<close>

text \<open>
  A Go map that is iterated is an association list with one pair per key;
  \<open>AList.update\<close> and \<open>AList.delete\<close> are assignment at a key and \<^verbatim>\<open>delete\<close>. The order
  of the pairs stands for the unspecified order of \<^verbatim>\<open>range\<close>.
\<close>

record Program =
  Source :: "(int \<times> string) list"
  Stmts :: "(int \<times> Stmt) list"

definition NewProgram :: Program where
  "NewProgram = \<lparr>Source = [], Stmts = []\<rparr>"

definition Clear :: "Program \<Rightarrow> Program" where
  "Clear p = p\<lparr>Source := [], Stmts := []\<rparr>"

definition SetLine :: "Program \<Rightarrow> int \<Rightarrow> string \<Rightarrow> Stmt \<Rightarrow> Program" where
  "SetLine p lineNo src stmt =
     p\<lparr>Source := AList.update lineNo src (Source p), Stmts := AList.update lineNo stmt (Stmts p)\<rparr>"

definition DeleteLine :: "Program \<Rightarrow> int \<Rightarrow> Program" where
  "DeleteLine p lineNo =
     p\<lparr>Source := AList.delete lineNo (Source p), Stmts := AList.delete lineNo (Stmts p)\<rparr>"

definition OrderedLines :: "Program \<Rightarrow> int list" where
  "OrderedLines p = sort (map fst (Stmts p))"

text \<open>The editing operations of the read loop, for sequences of them.\<close>

datatype edit = SetLineOp int string Stmt | DeleteLineOp int

fun apply_edit :: "Program \<Rightarrow> edit \<Rightarrow> Program" where
  "apply_edit p (SetLineOp lineNo src stmt) = SetLine p lineNo src stmt"
| "apply_edit p (DeleteLineOp lineNo) = DeleteLine p lineNo"

definition apply_edits :: "Program \<Rightarrow> edit list \<Rightarrow> Program" where
  "apply_edits p es = foldl apply_edit p es"

section \<open>The interpreter (runtime.go)\<close>

subsection \<open>Expressions\<close>

fun evalExpr :: "Env \<Rightarrow> Expr \<Rightarrow> error + Value" where
  "evalExpr env (NumberLit v) = Inr (NumberValue v)"
| "evalExpr env (StringLit s) = Inr (StringValue s)"
| "evalExpr env (VarRef name) = Inr (Get env name)"
| "evalExpr env (UnaryExpr op rhs) =
    (case evalExpr env rhs of
       Inl err \<Rightarrow> Inl err
     | Inr v \<Rightarrow>
         if Kind v \<noteq> ValNumber then Inl (UnaryRequiresNumber op)
         else if op = ''+'' then Inr v
         else if op = ''-'' then Inr (NumberValue (- Num v))
         else Inl (UnsupportedUnaryOp op))"
| "evalExpr env (BinaryExpr op lhs rhs) =
    (case evalExpr env lhs of
       Inl err \<Rightarrow> Inl err
     | Inr lv \<Rightarrow>
        (case evalExpr env rhs of
           Inl err \<Rightarrow> Inl err
         | Inr rv \<Rightarrow> evalBinary op lv rv))"

subsection \<open>State\<close>

text \<open>
  \<open>In\<close> is the text the reader has not delivered yet and \<open>Out\<close> the text written to the
  sink so far. A read or write that fails in the operating system is not modelled.
\<close>

record Interpreter =
  Prog :: Program
  Env :: Env
  In :: string
  Out :: string
  MaxOps :: int

definition NewInterpreter :: "Program \<Rightarrow> string \<Rightarrow> string \<Rightarrow> Interpreter" where
  "NewInterpreter prog inp out =
     \<lparr>Prog = prog, Env = NewEnv, In = inp, Out = out, MaxOps = 1000000\<rparr>"

definition ResetEnv :: "Interpreter \<Rightarrow> Interpreter" where
  "ResetEnv it = it\<lparr>Env := NewEnv\<rparr>"

subsection \<open>Text helpers (packages strings and bufio)\<close>

definition LF :: char where "LF = CHR 0x0A"
definition CR :: char where "CR = CHR 0x0D"

text \<open>\<^verbatim>\<open>ReadString('\n')\<close>: the text up to and with the first line feed, or all that is left.\<close>

definition ReadString :: "string \<Rightarrow> string \<times> string" where
  "ReadString inp =
    (let line = takeWhile (\<lambda>c. c \<noteq> LF) inp; rest = dropWhile (\<lambda>c. c \<noteq> LF) inp in
     case rest of [] \<Rightarrow> (line, []) | c # rest' \<Rightarrow> (line @ [c], rest'))"

definition TrimRight :: "string \<Rightarrow> string \<Rightarrow> string" where
  "TrimRight s cutset = rev (dropWhile (\<lambda>c. c \<in> set cutset) (rev s))"

definition isSpace :: "char \<Rightarrow> bool" where
  "isSpace c = (c \<in> set [CHR 0x09, CHR 0x0A, CHR 0x0B, CHR 0x0C, CHR 0x0D, CHR 0x20])"

definition TrimSpace :: "string \<Rightarrow> string" where
  "TrimSpace s = rev (dropWhile isSpace (rev (dropWhile isSpace s)))"

fun Join :: "string list \<Rightarrow> string \<Rightarrow> string" where
  "Join [] sep = []"
| "Join [x] sep = x"
| "Join (x # y # ys) sep = x @ sep @ Join (y # ys) sep"

subsection \<open>Statements\<close>

text \<open>The loop of the \<^verbatim>\<open>PrintStmt\<close> case: the first failing expression ends it.\<close>

fun evalParts :: "strconv \<Rightarrow> Env \<Rightarrow> Expr list \<Rightarrow> string list \<Rightarrow> error + string list" where
  "evalParts L env [] parts = Inr parts"
| "evalParts L env (e # es) parts =
    (case evalExpr env e of
       Inl err \<Rightarrow> Inl err
     | Inr v \<Rightarrow> evalParts L env es (parts @ [Value_String L v]))"

text \<open>
  \<open>execStmt\<close> returns the triple of the Go function as \<open>Inl err\<close> or
  \<open>Inr (nextPC, end)\<close>, together with the interpreter after the statement: what a
  statement wrote, read or assigned before it failed stays.
\<close>

fun execStmt ::
  "strconv \<Rightarrow> Interpreter \<Rightarrow> Stmt \<Rightarrow> int \<Rightarrow> (int \<rightharpoonup> int) \<Rightarrow> int \<Rightarrow> (error + int \<times> bool) \<times> Interpreter"
where
  "execStmt L it RemStmt lineNo lineIndex pc = (Inr (pc + 1, False), it)"
| "execStmt L it (LetStmt name expr) lineNo lineIndex pc =
    (case evalExpr (Env it) expr of
       Inl err \<Rightarrow> (Inl err, it)
     | Inr v \<Rightarrow>
        (case Set (Env it) name v of
           Inl err \<Rightarrow> (Inl err, it)
         | Inr env' \<Rightarrow> (Inr (pc + 1, False), it\<lparr>Env := env'\<rparr>)))"
| "execStmt L it (PrintStmt exprs) lineNo lineIndex pc =
    (if length exprs = 0 then (Inr (pc + 1, False), it\<lparr>Out := Out it @ [LF]\<rparr>)
     else
       case evalParts L (Env it) exprs [] of
         Inl err \<Rightarrow> (Inl err, it)
       | Inr parts \<Rightarrow> (Inr (pc + 1, False), it\<lparr>Out := Out it @ Join parts '' '' @ [LF]\<rparr>))"
| "execStmt L it (InputStmt name) lineNo lineIndex pc =
    (let it1 = it\<lparr>Out := Out it @ ''? ''\<rparr>;
         (line0, rest) = ReadString (In it1);
         it2 = it1\<lparr>In := rest\<rparr>;
         line = TrimRight line0 [CR, LF]
     in
       if HasSuffix (ToUpper name) ''$'' then
         (case Set (Env it2) name (StringValue line) of
            Inl err \<Rightarrow> (Inl err, it2)
          | Inr env' \<Rightarrow> (Inr (pc + 1, False), it2\<lparr>Env := env'\<rparr>))
       else
         (case ParseFloat L (TrimSpace line) of
            None \<Rightarrow> (Inl InputExpectsNumber, it2)
          | Some n \<Rightarrow>
             (case Set (Env it2) name (NumberValue n) of
                Inl err \<Rightarrow> (Inl err, it2)
              | Inr env' \<Rightarrow> (Inr (pc + 1, False), it2\<lparr>Env := env'\<rparr>))))"
| "execStmt L it (IfStmt cond thenStmt thenLine hasLine) lineNo lineIndex pc =
    (case evalExpr (Env it) cond of
       Inl err \<Rightarrow> (Inl err, it)
     | Inr c \<Rightarrow>
         if Kind c \<noteq> ValNumber then (Inl IfConditionMustBeNumeric, it)
         else if Num c = 0 then (Inr (pc + 1, False), it)
         else if hasLine then
           (case lineIndex thenLine of
              None \<Rightarrow> (Inl (UndefinedLine thenLine), it)
            | Some idx \<Rightarrow> (Inr (idx, False), it))
         else
           (case thenStmt of
              None \<Rightarrow> (Inl UnknownStatementType, it)
            | Some s \<Rightarrow> execStmt L it s lineNo lineIndex pc))"
| "execStmt L it (GotoStmt line) lineNo lineIndex pc =
    (case lineIndex line of
       None \<Rightarrow> (Inl (UndefinedLine line), it)
     | Some idx \<Rightarrow> (Inr (idx, False), it))"
| "execStmt L it EndStmt lineNo lineIndex pc = (Inr (0, True), it)"

text \<open>
  The statement \<^verbatim>\<open>Run\<close> reads from the table is an interface value; for a nil one
  \<open>execStmt\<close> takes its \<^verbatim>\<open>default\<close> case.
\<close>

definition execStmt_nil ::
  "strconv \<Rightarrow> Interpreter \<Rightarrow> Stmt option \<Rightarrow> int \<Rightarrow> (int \<rightharpoonup> int) \<Rightarrow> int
     \<Rightarrow> (error + int \<times> bool) \<times> Interpreter" where
  "execStmt_nil L it stmt lineNo lineIndex pc =
    (case stmt of
       None \<Rightarrow> (Inl UnknownStatementType, it)
     | Some s \<Rightarrow> execStmt L it s lineNo lineIndex pc)"

subsection \<open>Run\<close>

text \<open>The map from line number to index that \<^verbatim>\<open>Run\<close> fills by a loop over \<open>order\<close>.\<close>

fun build_lineIndex :: "int list \<Rightarrow> int \<Rightarrow> (int \<rightharpoonup> int) \<Rightarrow> (int \<rightharpoonup> int)" where
  "build_lineIndex [] i m = m"
| "build_lineIndex (lno # lnos) i m = build_lineIndex lnos (i + 1) (m(lno \<mapsto> i))"

text \<open>
  The \<^verbatim>\<open>for\<close> loop of \<^verbatim>\<open>Run\<close>. Nothing in the code bounds it when \<^verbatim>\<open>MaxOps\<close> is not
  positive, so the model takes fuel: the first argument is the number of statements the
  loop may still execute, and \<open>None\<close> says that this number did not suffice. The loop test
  and the budget test consume no fuel. The result is the error of \<^verbatim>\<open>Run\<close> (\<open>None\<close> for
  \<^verbatim>\<open>nil\<close>) and the interpreter at the end.
\<close>

fun Run_loop ::
  "nat \<Rightarrow> strconv \<Rightarrow> int list \<Rightarrow> (int \<rightharpoonup> int) \<Rightarrow> int \<Rightarrow> int \<Rightarrow> Interpreter
     \<Rightarrow> (error option \<times> Interpreter) option"
where
  "Run_loop fuel L order lineIndex pc ops it =
    (if \<not> (pc \<ge> 0 \<and> pc < int (length order)) then Some (None, it)
     else
       let ops' = (if MaxOps it > 0 then ops + 1 else ops) in
       if MaxOps it > 0 \<and> ops' > MaxOps it then Some (Some OperationLimitExceeded, it)
       else
         case fuel of
           0 \<Rightarrow> None
         | Suc fuel' \<Rightarrow>
            (let lineNo = order ! nat pc;
                 stmt = map_of (Stmts (Prog it)) lineNo
             in case execStmt_nil L it stmt lineNo lineIndex pc of
                  (Inl err, it') \<Rightarrow> Some (Some (RuntimeErrorAtLine lineNo err), it')
                | (Inr (nextPC, end), it') \<Rightarrow>
                    if end then Some (None, it')
                    else Run_loop fuel' L order lineIndex nextPC ops' it'))"

declare Run_loop.simps [simp del]

definition Run :: "nat \<Rightarrow> strconv \<Rightarrow> Interpreter \<Rightarrow> (error option \<times> Interpreter) option" where
  "Run fuel L it =
    (let order = OrderedLines (Prog it) in
     if length order = 0 then Some (None, it)
     else Run_loop fuel L order (build_lineIndex order 0 Map.empty) 0 0 it)"

text \<open>A result of the run loop, or of a statement, with \<open>out\<close> written before its output.\<close>

definition with_out ::
  "string \<Rightarrow> (error + int \<times> bool) \<times> Interpreter \<Rightarrow> (error + int \<times> bool) \<times> Interpreter" where
  "with_out out x = (fst x, (snd x)\<lparr>Out := out @ Out (snd x)\<rparr>)"

definition run_with_out ::
  "string \<Rightarrow> (error option \<times> Interpreter) option \<Rightarrow> (error option \<times> Interpreter) option" where
  "run_with_out out x = map_option (\<lambda>(r, it'). (r, it'\<lparr>Out := out @ Out it'\<rparr>)) x"

subsection \<open>The stored lines, from the editing history\<close>

text \<open>
  What the specification says of the program table: a line-set operation adds or replaces
  the entry of its line, a line-delete operation removes it. \<open>stored_lines\<close> follows
  these words on the set of line numbers, without the table.
\<close>

fun edit_lines :: "int set \<Rightarrow> edit \<Rightarrow> int set" where
  "edit_lines S (SetLineOp lineNo src stmt) = insert lineNo S"
| "edit_lines S (DeleteLineOp lineNo) = S - {lineNo}"

definition stored_lines :: "edit list \<Rightarrow> int set" where
  "stored_lines es = foldl edit_lines {} es"

text \<open>A library instance that knows plain decimal notation only, for concrete runs.\<close>

definition reject_other :: "string \<Rightarrow> rat option" where
  "reject_other s = None"

definition empty_text :: "rat \<Rightarrow> string" where
  "empty_text v = []"

definition decimal_only :: strconv where
  "decimal_only = \<lparr>ParseFloat_other = reject_other, FormatFloat_other = empty_text\<rparr>"

subsection \<open>Small programs for concrete runs\<close>

text \<open>\<^verbatim>\<open>10 GOTO 20\<close>, \<^verbatim>\<open>20 END\<close>, entered in the opposite order.\<close>

definition jump_program :: Program where
  "jump_program = SetLine (SetLine NewProgram 20 ''END'' EndStmt) 10 ''GOTO 20'' (GotoStmt 20)"

text \<open>\<^verbatim>\<open>10 PRINT 1 / 0\<close>\<close>

definition div_zero_program :: Program where
  "div_zero_program =
     SetLine NewProgram 10 ''PRINT 1 / 0'' (PrintStmt [BinaryExpr ''/'' (NumberLit 1) (NumberLit 0)])"

text \<open>\<^verbatim>\<open>10 GOTO 10\<close>\<close>

definition self_loop_program :: Program where
  "self_loop_program = SetLine NewProgram 10 ''GOTO 10'' (GotoStmt 10)"

text \<open>\<^verbatim>\<open>10 INPUT A$\<close>, \<^verbatim>\<open>20 PRINT A$\<close>\<close>

definition echo_program :: Program where
  "echo_program =
     SetLine (SetLine NewProgram 10 ''INPUT A$'' (InputStmt ''A$'')) 20 ''PRINT A$''
       (PrintStmt [VarRef ''A$''])"

text \<open>
  The interpreter before a run of \<open>echo_program\<close> whose reader holds the lines
  \<^verbatim>\<open>a\<close> and \<^verbatim>\<open>b\<close>, after that run, and after a second run.
\<close>

definition echo_start :: Interpreter where
  "echo_start = NewInterpreter echo_program (''a'' @ [LF] @ ''b'' @ [LF]) []"

definition echo_after_first :: Interpreter where
  "echo_after_first =
     echo_start\<lparr>Env := \<lparr>NumVars = Map.empty, StrVars = [''A$'' \<mapsto> ''a'']\<rparr>,
                In := ''b'' @ [LF], Out := ''? a'' @ [LF]\<rparr>"

definition echo_after_second :: Interpreter where
  "echo_after_second =
     echo_start\<lparr>Env := \<lparr>NumVars = Map.empty, StrVars = [''A$'' \<mapsto> ''b'']\<rparr>,
                In := [], Out := ''? a'' @ [LF] @ ''? b'' @ [LF]\<rparr>"

text \<open>Statements, and tables, in which no \<open>InputStmt\<close> occurs.\<close>

fun no_input_stmt :: "Stmt \<Rightarrow> bool" where
  "no_input_stmt (InputStmt name) = False"
| "no_input_stmt (IfStmt cond (Some s) thenLine hasLine) = no_input_stmt s"
| "no_input_stmt s = True"

definition no_input :: "Program \<Rightarrow> bool" where
  "no_input p = list_all (\<lambda>(lineNo, s). no_input_stmt s) (Stmts p)"

section \<open>The lexer (lexer.go)\<close>

datatype TokenType =
    ILLEGAL | EOF
  | IDENT | NUMBER | STRING
  | ASSIGN | PLUS | MINUS | ASTER | SLASH
  | NEQ | LT | LTE | GT | GTE
  | LPAREN | RPAREN | COMMA
  | REM | LET | PRINT | INPUT | IF | THEN | GOTO | END
  | RUN | LIST | NEW

text \<open>\<^verbatim>\<open>EQ\<close> is the same string as \<^verbatim>\<open>ASSIGN\<close> in the Go source, hence the same token type.\<close>

record Token =
  Type :: TokenType
  Literal :: string

definition keywords_table :: "(string \<times> TokenType) list" where
  "keywords_table =
    [(''REM'', REM), (''LET'', LET), (''PRINT'', PRINT), (''INPUT'', INPUT), (''IF'', IF),
     (''THEN'', THEN), (''GOTO'', GOTO), (''END'', END), (''RUN'', RUN), (''LIST'', LIST),
     (''NEW'', NEW)]"

definition LookupIdent :: "string \<Rightarrow> TokenType" where
  "LookupIdent s = (case map_of keywords_table (ToUpper s) of Some tok \<Rightarrow> tok | None \<Rightarrow> IDENT)"

text \<open>
  \<^verbatim>\<open>isLetter\<close> asks \<^verbatim>\<open>unicode.IsLetter\<close> about the byte taken as a code point: the ASCII
  letters and the letters of Latin-1.
\<close>

definition isLetter :: "char \<Rightarrow> bool" where
  "isLetter ch =
    (let n = (of_char ch :: nat) in
     (65 \<le> n \<and> n \<le> 90) \<or> (97 \<le> n \<and> n \<le> 122) \<or> n = 170 \<or> n = 181 \<or> n = 186 \<or>
     (192 \<le> n \<and> n \<le> 214) \<or> (216 \<le> n \<and> n \<le> 246) \<or> (248 \<le> n \<and> n \<le> 255))"

text \<open>
  The lexer's cursor (\<^verbatim>\<open>input\<close>, \<^verbatim>\<open>position\<close>, \<^verbatim>\<open>readPosition\<close>, \<^verbatim>\<open>ch\<close>) is kept as the
  text from \<^verbatim>\<open>position\<close> on: \<open>cur_ch\<close> is \<^verbatim>\<open>l.ch\<close>, the first byte of that text or 0 at
  its end, and \<open>readChar\<close> drops that byte.
\<close>

type_synonym Lexer = string

definition NUL :: char where "NUL = CHR 0x00"
definition DQUOTE :: char where "DQUOTE = CHR 0x22"
definition BACKSLASH :: char where "BACKSLASH = CHR 0x5C"

definition NewLexer :: "string \<Rightarrow> Lexer" where
  "NewLexer inp = inp"

definition cur_ch :: "Lexer \<Rightarrow> char" where
  "cur_ch l = (case l of [] \<Rightarrow> NUL | c # cs \<Rightarrow> c)"

definition readChar :: "Lexer \<Rightarrow> Lexer" where
  "readChar l = (case l of [] \<Rightarrow> [] | c # cs \<Rightarrow> cs)"

definition peekChar :: "Lexer \<Rightarrow> char" where
  "peekChar l = (case l of c # d # cs \<Rightarrow> d | _ \<Rightarrow> NUL)"

fun skipWhitespace :: "Lexer \<Rightarrow> Lexer" where
  "skipWhitespace [] = []"
| "skipWhitespace (c # cs) =
    (if c = CHR '' '' \<or> c = CHR 0x09 \<or> c = CR then skipWhitespace cs else c # cs)"

text \<open>The readers return the slice \<^verbatim>\<open>input[start:position]\<close> and the lexer after it.\<close>

definition readIdentifier :: "Lexer \<Rightarrow> string \<times> Lexer" where
  "readIdentifier l =
    (let body = takeWhile (\<lambda>c. isLetter c \<or> isDigit c) l;
         l1 = dropWhile (\<lambda>c. isLetter c \<or> isDigit c) l
     in if cur_ch l1 = CHR ''$'' then (body @ ''$'', readChar l1) else (body, l1))"

fun readNumber_loop :: "bool \<Rightarrow> Lexer \<Rightarrow> string \<times> Lexer" where
  "readNumber_loop hasDot [] = ([], [])"
| "readNumber_loop hasDot (c # cs) =
    (if isDigit c \<or> (\<not> hasDot \<and> c = CHR ''.'')
     then (let (num, l') = readNumber_loop (hasDot \<or> c = CHR ''.'') cs in (c # num, l'))
     else ([], c # cs))"

definition readNumber :: "Lexer \<Rightarrow> string \<times> Lexer" where
  "readNumber l = readNumber_loop False l"

definition readString :: "Lexer \<Rightarrow> (string \<times> bool) \<times> Lexer" where
  "readString l =
    (let l1 = readChar l;
         s = takeWhile (\<lambda>c. c \<noteq> DQUOTE \<and> c \<noteq> NUL \<and> c \<noteq> LF) l1;
         l2 = dropWhile (\<lambda>c. c \<noteq> DQUOTE \<and> c \<noteq> NUL \<and> c \<noteq> LF) l1
     in if cur_ch l2 \<noteq> DQUOTE then (([], False), l2) else ((s, True), readChar l2))"

definition NextToken :: "Lexer \<Rightarrow> Token \<times> Lexer" where
  "NextToken l0 =
    (let l = skipWhitespace l0; ch = cur_ch l in
     if ch = NUL then (\<lparr>Type = EOF, Literal = []\<rparr>, l)
     else if ch = CHR ''+'' then (\<lparr>Type = PLUS, Literal = ''+''\<rparr>, readChar l)
     else if ch = CHR ''-'' then (\<lparr>Type = MINUS, Literal = ''-''\<rparr>, readChar l)
     else if ch = CHR ''*'' then (\<lparr>Type = ASTER, Literal = ''*''\<rparr>, readChar l)
     else if ch = CHR ''/'' then (\<lparr>Type = SLASH, Literal = ''/''\<rparr>, readChar l)
     else if ch = CHR ''('' then (\<lparr>Type = LPAREN, Literal = ''(''\<rparr>, readChar l)
     else if ch = CHR '')'' then (\<lparr>Type = RPAREN, Literal = '')''\<rparr>, readChar l)
     else if ch = CHR '','' then (\<lparr>Type = COMMA, Literal = '',''\<rparr>, readChar l)
     else if ch = CHR ''='' then (\<lparr>Type = ASSIGN, Literal = ''=''\<rparr>, readChar l)
     else if ch = CHR ''<'' then
       (if peekChar l = CHR ''='' then (\<lparr>Type = LTE, Literal = ''<=''\<rparr>, readChar (readChar l))
        else if peekChar l = CHR ''>'' then (\<lparr>Type = NEQ, Literal = ''<>''\<rparr>, readChar (readChar l))
        else (\<lparr>Type = LT, Literal = ''<''\<rparr>, readChar l))
     else if ch = CHR ''>'' then
       (if peekChar l = CHR ''='' then (\<lparr>Type = GTE, Literal = ''>=''\<rparr>, readChar (readChar l))
        else (\<lparr>Type = GT, Literal = ''>''\<rparr>, readChar l))
     else if ch = DQUOTE then
       (case readString l of
          ((s, ok), l') \<Rightarrow>
            if \<not> ok then (\<lparr>Type = ILLEGAL, Literal = ''unterminated string''\<rparr>, l')
            else (\<lparr>Type = STRING, Literal = s\<rparr>, l'))
     else if isLetter ch then
       (case readIdentifier l of
          (ident, l') \<Rightarrow> (\<lparr>Type = LookupIdent ident, Literal = ToUpper ident\<rparr>, l'))
     else if isDigit ch then
       (case readNumber l of (num, l') \<Rightarrow> (\<lparr>Type = NUMBER, Literal = num\<rparr>, l'))
     else (\<lparr>Type = ILLEGAL, Literal = [ch]\<rparr>, readChar l))"

section \<open>The parser\<close>

type_synonym precedence = nat

definition LOWEST :: precedence where "LOWEST = 1"
definition COMPARE :: precedence where "COMPARE = 2"
definition SUM_prec :: precedence where "SUM_prec = 3"
definition PRODUCT :: precedence where "PRODUCT = 4"
definition PREFIX :: precedence where "PREFIX = 5"

definition precedences :: "(TokenType \<times> precedence) list" where
  "precedences =
    [(ASSIGN, COMPARE), (NEQ, COMPARE), (LT, COMPARE), (LTE, COMPARE), (GT, COMPARE),
     (GTE, COMPARE), (PLUS, SUM_prec), (MINUS, SUM_prec), (ASTER, PRODUCT), (SLASH, PRODUCT)]"

text \<open>The messages of \<^verbatim>\<open>addErr\<close>, one constructor each.\<close>

datatype parse_error =
    UnexpectedIdentifier string
  | UnexpectedToken TokenType
  | LetRequiresIdentifier
  | AssignmentRequiresIdentifier
  | ExpectedAssign
  | InputRequiresIdentifier
  | ThenRequiresStatementOrLine
  | InvalidLineNumberAfterThen
  | GotoRequiresLineNumber
  | InvalidGotoLineNumber
  | InvalidNumber string
  | ExpectedRParen
  | UnexpectedTokenInExpression TokenType

text \<open>The field \<^verbatim>\<open>l\<close> of the Go struct is \<open>lex\<close> here.\<close>

record Parser =
  lex :: Lexer
  curTok :: Token
  peekTok :: Token
  errors :: "parse_error list"

definition nextToken :: "Parser \<Rightarrow> Parser" where
  "nextToken p =
    (case NextToken (lex p) of (tok, l') \<Rightarrow> p\<lparr>curTok := peekTok p, peekTok := tok, lex := l'\<rparr>)"

text \<open>The zero value of \<^verbatim>\<open>Token\<close> has the empty string as its type; it is never inspected.\<close>

definition NewParser :: "string \<Rightarrow> Parser" where
  "NewParser src =
    nextToken (nextToken \<lparr>lex = NewLexer src, curTok = \<lparr>Type = ILLEGAL, Literal = []\<rparr>,
                           peekTok = \<lparr>Type = ILLEGAL, Literal = []\<rparr>, errors = []\<rparr>)"

definition addErr :: "Parser \<Rightarrow> parse_error \<Rightarrow> Parser" where
  "addErr p e = p\<lparr>errors := errors p @ [e]\<rparr>"

definition peekPrecedence :: "Parser \<Rightarrow> precedence" where
  "peekPrecedence p = (case map_of precedences (Type (peekTok p)) of Some pr \<Rightarrow> pr | None \<Rightarrow> LOWEST)"

definition curPrecedence :: "Parser \<Rightarrow> precedence" where
  "curPrecedence p = (case map_of precedences (Type (curTok p)) of Some pr \<Rightarrow> pr | None \<Rightarrow> LOWEST)"

subsection \<open>Line numbers (main.go)\<close>

text \<open>
  \<^verbatim>\<open>strconv.Atoi\<close>: an optional sign and decimal digits, within the range of a 64-bit
  \<^verbatim>\<open>int\<close>.
\<close>

definition Atoi :: "string \<Rightarrow> int option" where
  "Atoi s =
    (let neg = (s \<noteq> [] \<and> hd s = CHR ''-'');
         ds = (if s \<noteq> [] \<and> (hd s = CHR ''-'' \<or> hd s = CHR ''+'') then tl s else s)
     in if ds = [] \<or> \<not> list_all isDigit ds then None
        else let n = int (digits_val ds) in
          if neg then (if n > 9223372036854775808 then None else Some (- n))
          else (if n > 9223372036854775807 then None else Some n))"

definition parseIntStrict :: "string \<Rightarrow> int option" where
  "parseIntStrict s = (if CHR '','' \<in> set s then None else Atoi s)"

subsection \<open>Expressions\<close>

text \<open>
  The three expression parsers call one another, and the loop of \<^verbatim>\<open>parseExpr\<close> is
  \<open>parseExpr_loop\<close>. Their recursion is not structural in the parser state, so each
  takes fuel, the depth of calls and loop rounds it may still use; \<open>None\<close> says that the
  fuel did not suffice. A result \<open>Some (None, p)\<close> is the \<^verbatim>\<open>nil\<close> expression of the Go
  code, with the errors recorded in \<open>p\<close>.
\<close>

definition is_infix_operator :: "TokenType \<Rightarrow> bool" where
  "is_infix_operator t = (t \<in> set [PLUS, MINUS, ASTER, SLASH, ASSIGN, NEQ, LT, LTE, GT, GTE])"

fun parseExpr :: "nat \<Rightarrow> strconv \<Rightarrow> precedence \<Rightarrow> Parser \<Rightarrow> (Expr option \<times> Parser) option"
  and parseExpr_loop ::
    "nat \<Rightarrow> strconv \<Rightarrow> precedence \<Rightarrow> Expr \<Rightarrow> Parser \<Rightarrow> (Expr option \<times> Parser) option"
  and parsePrefix :: "nat \<Rightarrow> strconv \<Rightarrow> Parser \<Rightarrow> (Expr option \<times> Parser) option"
  and parseInfix :: "nat \<Rightarrow> strconv \<Rightarrow> Expr \<Rightarrow> Parser \<Rightarrow> (Expr option \<times> Parser) option"
where
  "parseExpr 0 L pr p = None"
| "parseExpr (Suc n) L pr p =
    (case parsePrefix n L p of
       None \<Rightarrow> None
     | Some (None, p') \<Rightarrow> Some (None, p')
     | Some (Some left, p') \<Rightarrow> parseExpr_loop n L pr left p')"
| "parseExpr_loop 0 L pr left p = None"
| "parseExpr_loop (Suc n) L pr left p =
    (if Type (peekTok p) \<noteq> EOF \<and> pr < peekPrecedence p then
       if is_infix_operator (Type (peekTok p)) then
         (case parseInfix n L left (nextToken p) of
            None \<Rightarrow> None
          | Some (None, p') \<Rightarrow> Some (None, p')
          | Some (Some left', p') \<Rightarrow> parseExpr_loop n L pr left' p')
       else Some (Some left, p)
     else Some (Some left, p))"
| "parsePrefix 0 L p = None"
| "parsePrefix (Suc n) L p =
    (let t = Type (curTok p) in
     if t = NUMBER then
       (case ParseFloat L (Literal (curTok p)) of
          None \<Rightarrow> Some (None, addErr p (InvalidNumber (Literal (curTok p))))
        | Some v \<Rightarrow> Some (Some (NumberLit v), p))
     else if t = STRING then Some (Some (StringLit (Literal (curTok p))), p)
     else if t = IDENT then Some (Some (VarRef (Literal (curTok p))), p)
     else if t = PLUS \<or> t = MINUS then
       (let op = Literal (curTok p) in
        case parseExpr n L PREFIX (nextToken p) of
          None \<Rightarrow> None
        | Some (None, p') \<Rightarrow> Some (None, p')
        | Some (Some rhs, p') \<Rightarrow> Some (Some (UnaryExpr op rhs), p'))
     else if t = LPAREN then
       (case parseExpr n L LOWEST (nextToken p) of
          None \<Rightarrow> None
        | Some (None, p') \<Rightarrow> Some (None, p')
        | Some (Some e, p') \<Rightarrow>
            if Type (peekTok p') \<noteq> RPAREN then Some (None, addErr p' ExpectedRParen)
            else Some (Some e, nextToken p'))
     else Some (None, addErr p (UnexpectedTokenInExpression t)))"
| "parseInfix 0 L left p = None"
| "parseInfix (Suc n) L left p =
    (let opTok = curTok p; prec = curPrecedence p in
     case parseExpr n L prec (nextToken p) of
       None \<Rightarrow> None
     | Some (None, p') \<Rightarrow> Some (None, p')
     | Some (Some right, p') \<Rightarrow> Some (Some (BinaryExpr (Literal opTok) left right), p'))"

subsection \<open>Statements\<close>

definition parseLetStmt :: "nat \<Rightarrow> strconv \<Rightarrow> bool \<Rightarrow> Parser \<Rightarrow> (Stmt option \<times> Parser) option" where
  "parseLetStmt n L hasLET p0 =
    (let p = (if hasLET then nextToken p0 else p0) in
     if Type (curTok p) \<noteq> IDENT then
       Some (None, addErr p (if hasLET then LetRequiresIdentifier else AssignmentRequiresIdentifier))
     else
       let name = Literal (curTok p) in
       if Type (peekTok p) \<noteq> ASSIGN then Some (None, addErr p ExpectedAssign)
       else
         case parseExpr n L LOWEST (nextToken (nextToken p)) of
           None \<Rightarrow> None
         | Some (None, p') \<Rightarrow> Some (None, p')
         | Some (Some expr, p') \<Rightarrow> Some (Some (LetStmt name expr), p'))"

fun parsePrint_loop ::
  "nat \<Rightarrow> strconv \<Rightarrow> Expr list \<Rightarrow> Parser \<Rightarrow> (Stmt option \<times> Parser) option" where
  "parsePrint_loop 0 L exprs p = None"
| "parsePrint_loop (Suc n) L exprs p =
    (if Type (peekTok p) = COMMA then
       (case parseExpr n L LOWEST (nextToken (nextToken p)) of
          None \<Rightarrow> None
        | Some (None, p') \<Rightarrow> Some (None, p')
        | Some (Some e, p') \<Rightarrow> parsePrint_loop n L (exprs @ [e]) p')
     else Some (Some (PrintStmt exprs), p))"

definition parsePrintStmt :: "nat \<Rightarrow> strconv \<Rightarrow> Parser \<Rightarrow> (Stmt option \<times> Parser) option" where
  "parsePrintStmt n L p =
    (if Type (peekTok p) = EOF then Some (Some (PrintStmt []), p)
     else
       case parseExpr n L LOWEST (nextToken p) of
         None \<Rightarrow> None
       | Some (None, p') \<Rightarrow> Some (None, p')
       | Some (Some first, p') \<Rightarrow> parsePrint_loop n L [first] p')"

definition parseInputStmt :: "Parser \<Rightarrow> Stmt option \<times> Parser" where
  "parseInputStmt p0 =
    (let p = nextToken p0 in
     if Type (curTok p) \<noteq> IDENT then (None, addErr p InputRequiresIdentifier)
     else (Some (InputStmt (Literal (curTok p))), p))"

definition parseGotoStmt :: "Parser \<Rightarrow> Stmt option \<times> Parser" where
  "parseGotoStmt p0 =
    (let p = nextToken p0 in
     if Type (curTok p) \<noteq> NUMBER then (None, addErr p GotoRequiresLineNumber)
     else
       case parseIntStrict (Literal (curTok p)) of
         None \<Rightarrow> (None, addErr p InvalidGotoLineNumber)
       | Some n \<Rightarrow> (Some (GotoStmt n), p))"

text \<open>
  \<open>parseIfStmt\<close> advances by one token after it has seen \<^verbatim>\<open>THEN\<close> as the next token, as
  the Go function does.
\<close>

fun ParseStatement :: "nat \<Rightarrow> strconv \<Rightarrow> Parser \<Rightarrow> (Stmt option \<times> Parser) option"
  and parseIfStmt :: "nat \<Rightarrow> strconv \<Rightarrow> Parser \<Rightarrow> (Stmt option \<times> Parser) option"
where
  "ParseStatement 0 L p = None"
| "ParseStatement (Suc n) L p =
    (let t = Type (curTok p) in
     if t = REM then Some (Some RemStmt, p)
     else if t = LET then parseLetStmt n L True p
     else if t = IDENT then
       (if Type (peekTok p) = ASSIGN then parseLetStmt n L False p
        else Some (None, addErr p (UnexpectedIdentifier (Literal (curTok p)))))
     else if t = PRINT then parsePrintStmt n L p
     else if t = INPUT then Some (parseInputStmt p)
     else if t = IF then parseIfStmt n L p
     else if t = GOTO then Some (parseGotoStmt p)
     else if t = END then Some (Some EndStmt, p)
     else Some (None, addErr p (UnexpectedToken t)))"
| "parseIfStmt 0 L p = None"
| "parseIfStmt (Suc n) L p0 =
    (case parseExpr n L LOWEST (nextToken p0) of
       None \<Rightarrow> None
     | Some (None, p) \<Rightarrow> Some (None, p)
     | Some (Some cond, p) \<Rightarrow>
         if Type (peekTok p) \<noteq> THEN then Some (None, addErr p ThenRequiresStatementOrLine)
         else
           let p1 = nextToken p in
           if Type (curTok p1) = NUMBER \<and> Type (peekTok p1) = EOF then
             (case parseIntStrict (Literal (curTok p1)) of
                None \<Rightarrow> Some (None, addErr p1 InvalidLineNumberAfterThen)
              | Some n \<Rightarrow> Some (Some (IfStmt cond None n True), p1))
           else
             (case ParseStatement n L p1 of
                None \<Rightarrow> None
              | Some (None, p2) \<Rightarrow> Some (None, p2)
              | Some (Some thenStmt, p2) \<Rightarrow> Some (Some (IfStmt cond (Some thenStmt) 0 False), p2)))"

section \<open>Statements and expressions as text (ast.go)\<close>

text \<open>
  \<^verbatim>\<open>strconv.Quote\<close> on bytes: the quote and the backslash get a backslash in front,
  the other printable ASCII characters are kept, the control characters are written with
  their Go escape. A byte from 128 on is written as \<^verbatim>\<open>\xhh\<close>, which is what Go does for a byte
  outside a UTF-8 encoding; the characters encoded in UTF-8 are outside this model.
\<close>

definition hex_char :: "nat \<Rightarrow> char" where
  "hex_char d = ''0123456789abcdef'' ! d"

definition Quote_byte :: "char \<Rightarrow> string" where
  "Quote_byte c =
    (let n = (of_char c :: nat) in
     if c = DQUOTE then [BACKSLASH, DQUOTE]
     else if c = BACKSLASH then [BACKSLASH, BACKSLASH]
     else if 32 \<le> n \<and> n \<le> 126 then [c]
     else if n = 7 then [BACKSLASH, CHR ''a'']
     else if n = 8 then [BACKSLASH, CHR ''b'']
     else if n = 12 then [BACKSLASH, CHR ''f'']
     else if n = 10 then [BACKSLASH, CHR ''n'']
     else if n = 13 then [BACKSLASH, CHR ''r'']
     else if n = 9 then [BACKSLASH, CHR ''t'']
     else if n = 11 then [BACKSLASH, CHR ''v'']
     else [BACKSLASH, CHR ''x'', hex_char (n div 16), hex_char (n mod 16)])"

definition Quote :: "string \<Rightarrow> string" where
  "Quote s = DQUOTE # concat (map Quote_byte s) @ [DQUOTE]"

fun Expr_String :: "strconv \<Rightarrow> Expr \<Rightarrow> string" where
  "Expr_String L (NumberLit v) = FormatFloat L v"
| "Expr_String L (StringLit s) = Quote s"
| "Expr_String L (VarRef name) = name"
| "Expr_String L (UnaryExpr op rhs) = ''('' @ op @ Expr_String L rhs @ '')''"
| "Expr_String L (BinaryExpr op lhs rhs) =
     ''('' @ Expr_String L lhs @ '' '' @ op @ '' '' @ Expr_String L rhs @ '')''"

text \<open>
  \<open>Stmt_String\<close> is \<open>None\<close> where the Go method calls \<^verbatim>\<open>String\<close> on the nil \<^verbatim>\<open>ThenStmt\<close> of an
  \<open>IfStmt\<close> without target line, which panics.
\<close>

fun Stmt_String :: "strconv \<Rightarrow> Stmt \<Rightarrow> string option" where
  "Stmt_String L RemStmt = Some ''REM''"
| "Stmt_String L (LetStmt name expr) = Some (name @ '' = '' @ Expr_String L expr)"
| "Stmt_String L (PrintStmt exprs) =
    (if length exprs = 0 then Some ''PRINT''
     else Some (''PRINT '' @ Join (map (Expr_String L) exprs) '', ''))"
| "Stmt_String L (InputStmt name) = Some (''INPUT '' @ name)"
| "Stmt_String L (IfStmt cond thenStmt thenLine hasLine) =
    (if hasLine then Some (''IF '' @ Expr_String L cond @ '' THEN '' @ format_int thenLine)
     else
       case thenStmt of
         None \<Rightarrow> None
       | Some s \<Rightarrow>
          (case Stmt_String L s of
             None \<Rightarrow> None
           | Some text \<Rightarrow> Some (''IF '' @ Expr_String L cond @ '' THEN '' @ text)))"
| "Stmt_String L (GotoStmt line) = Some (''GOTO '' @ format_int line)"
| "Stmt_String L EndStmt = Some ''END''"

subsection \<open>A statement whose text reads back differently\<close>

text \<open>The source text \<^verbatim>\<open>PRINT "a\b"\<close>, the statement it parses to, and the text of that.\<close>

definition backslash_source :: string where
  "backslash_source = ''PRINT '' @ [DQUOTE] @ ''a'' @ [BACKSLASH] @ ''b'' @ [DQUOTE]"

definition backslash_stmt :: Stmt where
  "backslash_stmt = PrintStmt [StringLit (''a'' @ [BACKSLASH] @ ''b'')]"

definition backslash_text :: string where
  "backslash_text = ''PRINT '' @ [DQUOTE] @ ''a'' @ [BACKSLASH, BACKSLASH] @ ''b'' @ [DQUOTE]"

definition backslash_reparsed :: Stmt where
  "backslash_reparsed = PrintStmt [StringLit (''a'' @ [BACKSLASH, BACKSLASH] @ ''b'')]"

text \<open>The parser states at the end of the two parses.\<close>

definition end_state :: "Token \<Rightarrow> Parser" where
  "end_state tok = \<lparr>lex = [], curTok = tok, peekTok = \<lparr>Type = EOF, Literal = []\<rparr>, errors = []\<rparr>"

subsection \<open>Literals that are written as they are read\<close>

text \<open>
  A text \<^verbatim>\<open>readNumber\<close> takes as one number: digits, then possibly a point and digits.
\<close>

definition plain_decimal :: "string \<Rightarrow> bool" where
  "plain_decimal ds =
    (let a = takeWhile isDigit ds; b = dropWhile isDigit ds in
     a \<noteq> [] \<and> (b = [] \<or> (hd b = CHR ''.'' \<and> list_all isDigit (tl b))))"

text \<open>A number that \<open>FormatFloat\<close> writes in that form and \<open>ParseFloat\<close> reads back.\<close>

definition plain_number :: "strconv \<Rightarrow> rat \<Rightarrow> bool" where
  "plain_number L v =
    (plain_decimal (FormatFloat L v) \<and> ParseFloat L (FormatFloat L v) = Some v)"

text \<open>A text of printable ASCII characters without the backslash (and without the quote).\<close>

definition plain_char :: "char \<Rightarrow> bool" where
  "plain_char c =
    (32 \<le> (of_char c :: nat) \<and> (of_char c :: nat) \<le> 126 \<and> c \<noteq> DQUOTE \<and> c \<noteq> BACKSLASH)"

definition plain_text :: "string \<Rightarrow> bool" where
  "plain_text s = list_all plain_char s"

fun plain_expr :: "strconv \<Rightarrow> Expr \<Rightarrow> bool" where
  "plain_expr L (NumberLit v) = plain_number L v"
| "plain_expr L (StringLit s) = plain_text s"
| "plain_expr L (VarRef name) = True"
| "plain_expr L (UnaryExpr op rhs) = plain_expr L rhs"
| "plain_expr L (BinaryExpr op lhs rhs) = (plain_expr L lhs \<and> plain_expr L rhs)"

fun plain_literals :: "strconv \<Rightarrow> Stmt \<Rightarrow> bool" where
  "plain_literals L (LetStmt name expr) = plain_expr L expr"
| "plain_literals L (PrintStmt exprs) = list_all (plain_expr L) exprs"
| "plain_literals L (IfStmt cond (Some s) thenLine hasLine) = (plain_expr L cond \<and> plain_literals L s)"
| "plain_literals L (IfStmt cond None thenLine hasLine) = plain_expr L cond"
| "plain_literals L s = True"

section \<open>Properties\<close>

subsection \<open>Ordered comparison\<close>

lemma evalBinary_ge_numbers:
  "evalBinary ''>='' (NumberValue l) (NumberValue r) =
     Inr (NumberValue (if l > - r then 1 else 0))"
  by (simp add: evalBinary_def NumberValue_def)

text \<open>
  Claim C1. For numbers \<open>l\<close> and \<open>r\<close>, the operator \<^verbatim>\<open>>=\<close> should give 1 exactly when
  \<open>l \<ge> r\<close>. The code compares \<open>l\<close> with the negated right operand: at \<open>l = 1\<close>, \<open>r = 2\<close>
  it answers 1 although \<open>1 \<ge> 2\<close> is false, and at \<open>l = -1\<close>, \<open>r = -1\<close> it answers 0
  although \<open>-1 \<ge> -1\<close> holds.
\<close>

theorem evalBinary_ge_compares_negated_rhs:
  "evalBinary ''>='' (NumberValue 1) (NumberValue 2) = Inr (NumberValue 1) \<and> \<not> ((1::rat) \<ge> 2) \<and>
   evalBinary ''>='' (NumberValue (- 1)) (NumberValue (- 1)) = Inr (NumberValue 0) \<and> (- 1::rat) \<ge> - 1"
  by (simp add: evalBinary_def NumberValue_def)

theorem evalBinary_ge_compares_negated_rhs_witness:
  "evalBinary ''>='' (NumberValue 1) (NumberValue 2) \<noteq> Inr (NumberValue 0) \<and>
   evalBinary ''>='' (NumberValue (- 1)) (NumberValue (- 1)) \<noteq> Inr (NumberValue 1)"
  using evalBinary_ge_compares_negated_rhs by (simp add: NumberValue_def)

subsection \<open>Environment lookup\<close>

text \<open>
  Claim C8. \<open>Get\<close> returns a value for every name and environment (it has no error
  result): with the name upper-cased, a name ending in \<^verbatim>\<open>$\<close> gives the stored text, or
  the empty text when unset, and any other name gives the stored number, or zero when
  unset. \<open>Get\<close> and \<open>Set\<close> both upper-case the name first, so two names with the same
  upper-case form read the same slot, are written alike, and a value stored under one is
  read back under the other.
\<close>

theorem Get_never_fails_case_insensitive:
  "(HasSuffix (ToUpper name) ''$'' \<longrightarrow>
      (StrVars e (ToUpper name) = None \<longrightarrow> Get e name = StringValue '''') \<and>
      (\<forall>s. StrVars e (ToUpper name) = Some s \<longrightarrow> Get e name = StringValue s)) \<and>
   (\<not> HasSuffix (ToUpper name) ''$'' \<longrightarrow>
      (NumVars e (ToUpper name) = None \<longrightarrow> Get e name = NumberValue 0) \<and>
      (\<forall>n. NumVars e (ToUpper name) = Some n \<longrightarrow> Get e name = NumberValue n)) \<and>
   (\<forall>other. ToUpper other = ToUpper name \<longrightarrow>
      Get e other = Get e name \<and> Set e other v = Set e name v \<and>
      (\<forall>e'. Set e name v = Inr e' \<longrightarrow>
         Get e' other = (if HasSuffix (ToUpper name) ''$'' then StringValue (Str v)
                         else NumberValue (Num v))))"
  by (auto simp: Get_def Set_def Let_def split: if_splits)

theorem Get_never_fails_case_insensitive_witness:
  "Get NewEnv ''a$'' = StringValue '''' \<and>
   Get (NewEnv\<lparr>StrVars := [''A$'' \<mapsto> ''hi'']\<rparr>) ''a$'' = StringValue ''hi'' \<and>
   Get NewEnv ''n'' = NumberValue 0 \<and>
   Get (NewEnv\<lparr>NumVars := [''N'' \<mapsto> 5]\<rparr>) ''n'' = NumberValue 5 \<and>
   Get NewEnv ''x'' = Get NewEnv ''X'' \<and>
   (\<exists>e'. Set NewEnv ''X'' (NumberValue 3) = Inr e' \<and> Get e' ''x'' = NumberValue 3)"
proof -
  have up: "ToUpper ''a$'' = ''A$''" "ToUpper ''n'' = ''N''" "ToUpper ''x'' = ToUpper ''X''"
    "ToUpper ''X'' = ''X''"
    by (simp_all add: ToUpper_def upper_byte_def)
  have suf: "HasSuffix ''A$'' ''$''" "\<not> HasSuffix ''N'' ''$''" "\<not> HasSuffix ''X'' ''$''"
    by (simp_all add: HasSuffix_def)
  have set3: "Set NewEnv ''X'' (NumberValue 3) = Inr (NewEnv\<lparr>NumVars := [''X'' \<mapsto> 3]\<rparr>)"
    by (simp add: Set_def up suf NumberValue_def NewEnv_def)
  have a: "Get NewEnv ''a$'' = StringValue ''''"
    using Get_never_fails_case_insensitive [of "''a$''" NewEnv] by (simp add: up suf NewEnv_def)
  have b: "Get (NewEnv\<lparr>StrVars := [''A$'' \<mapsto> ''hi'']\<rparr>) ''a$'' = StringValue ''hi''"
    using Get_never_fails_case_insensitive [of "''a$''" "NewEnv\<lparr>StrVars := [''A$'' \<mapsto> ''hi'']\<rparr>"]
    by (simp add: up suf)
  have c: "Get NewEnv ''n'' = NumberValue 0"
    using Get_never_fails_case_insensitive [of "''n''" NewEnv] by (simp add: up suf NewEnv_def)
  have d: "Get (NewEnv\<lparr>NumVars := [''N'' \<mapsto> 5]\<rparr>) ''n'' = NumberValue 5"
    using Get_never_fails_case_insensitive [of "''n''" "NewEnv\<lparr>NumVars := [''N'' \<mapsto> 5]\<rparr>"]
    by (simp add: up suf)
  have e: "Get NewEnv ''x'' = Get NewEnv ''X''"
    using Get_never_fails_case_insensitive [of "''X''" NewEnv] up(3) by blast
  have f0: "\<forall>e'. Set NewEnv ''X'' (NumberValue 3) = Inr e' \<longrightarrow>
         Get e' ''x'' = (if HasSuffix (ToUpper ''X'') ''$'' then StringValue (Str (NumberValue 3))
                         else NumberValue (Num (NumberValue 3)))"
    using Get_never_fails_case_insensitive [of "''X''" NewEnv "NumberValue 3"] up(3) by blast
  have f: "Get (NewEnv\<lparr>NumVars := [''X'' \<mapsto> 3]\<rparr>) ''x'' = NumberValue 3"
    using f0 [rule_format, OF set3] by (simp add: up suf NumberValue_def)
  from a b c d e f set3 show ?thesis by simp
qed

subsection \<open>The program table\<close>

lemma distinct_apply_edit:
  "distinct (map fst (Stmts p)) \<Longrightarrow> distinct (map fst (Stmts (apply_edit p e)))"
  by (cases e) (simp_all add: SetLine_def DeleteLine_def distinct_update distinct_delete)

lemma distinct_apply_edits:
  "distinct (map fst (Stmts p)) \<Longrightarrow> distinct (map fst (Stmts (apply_edits p es)))"
  unfolding apply_edits_def
  by (induction es arbitrary: p) (simp_all add: distinct_apply_edit)

lemma dom_apply_edit:
  "dom (map_of (Stmts (apply_edit p e))) = edit_lines (dom (map_of (Stmts p))) e"
  by (cases e) (auto simp: SetLine_def DeleteLine_def update_conv' delete_conv')

lemma dom_foldl_apply_edit:
  "dom (map_of (Stmts (foldl apply_edit p es))) = foldl edit_lines (dom (map_of (Stmts p))) es"
  by (induction es arbitrary: p) (simp_all add: dom_apply_edit)

lemma OrderedLines_sorted: "sorted (OrderedLines p)"
  by (simp add: OrderedLines_def)

lemma OrderedLines_set: "set (OrderedLines p) = dom (map_of (Stmts p))"
  by (simp add: OrderedLines_def dom_map_of_conv_image_fst)

lemma OrderedLines_distinct:
  "distinct (map fst (Stmts p)) \<Longrightarrow> distinct (OrderedLines p)"
  by (simp add: OrderedLines_def)

text \<open>
  Claim C7. After any sequence of \<open>SetLine\<close> and \<open>DeleteLine\<close> operations on a new
  program, \<open>OrderedLines\<close> is in ascending order, has no line number twice, and holds
  exactly the line numbers stored: the keys of the table, which are the lines set and
  not deleted since, whatever the order of the operations was.
\<close>

theorem OrderedLines_ascending_exact:
  "sorted (OrderedLines (apply_edits NewProgram es)) \<and>
   distinct (OrderedLines (apply_edits NewProgram es)) \<and>
   set (OrderedLines (apply_edits NewProgram es)) = dom (map_of (Stmts (apply_edits NewProgram es))) \<and>
   set (OrderedLines (apply_edits NewProgram es)) = stored_lines es"
proof -
  have d: "distinct (map fst (Stmts NewProgram))" by (simp add: NewProgram_def)
  have s: "dom (map_of (Stmts (apply_edits NewProgram es))) = stored_lines es"
    by (simp add: apply_edits_def stored_lines_def dom_foldl_apply_edit NewProgram_def)
  show ?thesis
    using distinct_apply_edits [OF d, of es] s
    by (simp add: OrderedLines_sorted OrderedLines_set OrderedLines_distinct)
qed

subsection \<open>Jump resolution\<close>

lemma build_lineIndex_notin:
  "n \<notin> set xs \<Longrightarrow> build_lineIndex xs i m n = m n"
  by (induction xs arbitrary: i m) auto

lemma build_lineIndex_in:
  "n \<in> set xs \<Longrightarrow> \<exists>j<length xs. xs ! j = n \<and> build_lineIndex xs i m n = Some (i + int j)"
proof (induction xs arbitrary: i m)
  case Nil
  then show ?case by simp
next
  case (Cons x xs)
  show ?case
  proof (cases "n \<in> set xs")
    case True
    from Cons.IH [OF True, of "i + 1" "m(x \<mapsto> i)"]
    obtain j where "j < length xs" "xs ! j = n"
      "build_lineIndex xs (i + 1) (m(x \<mapsto> i)) n = Some (i + 1 + int j)" by blast
    then have "Suc j < length (x # xs) \<and> (x # xs) ! Suc j = n \<and>
      build_lineIndex (x # xs) i m n = Some (i + int (Suc j))" by simp
    then show ?thesis by blast
  next
    case False
    with Cons.prems have "x = n" by simp
    with False have "build_lineIndex (x # xs) i m n = Some (i + int 0)"
      by (simp add: build_lineIndex_notin)
    moreover have "0 < length (x # xs) \<and> (x # xs) ! 0 = n" using \<open>x = n\<close> by simp
    ultimately show ?thesis by blast
  qed
qed

lemma lineIndex_of_program:
  assumes "order = OrderedLines p" and "idx = build_lineIndex order 0 Map.empty"
  shows "map_of (Stmts p) n = None \<Longrightarrow> idx n = None"
    and "map_of (Stmts p) n \<noteq> None \<Longrightarrow>
           \<exists>i. 0 \<le> i \<and> i < int (length order) \<and> order ! nat i = n \<and> idx n = Some i"
proof -
  have mem: "n \<in> set order \<longleftrightarrow> map_of (Stmts p) n \<noteq> None"
    using assms(1) OrderedLines_set [of p] by (auto simp: dom_def)
  show "map_of (Stmts p) n = None \<Longrightarrow> idx n = None"
    using mem assms(2) by (simp add: build_lineIndex_notin)
  show "map_of (Stmts p) n \<noteq> None \<Longrightarrow>
           \<exists>i. 0 \<le> i \<and> i < int (length order) \<and> order ! nat i = n \<and> idx n = Some i"
  proof -
    assume "map_of (Stmts p) n \<noteq> None"
    with mem have "n \<in> set order" by simp
    from build_lineIndex_in [OF this, of 0 Map.empty]
    obtain j where j: "j < length order" "order ! j = n" "idx n = Some (int j)"
      using assms(2) by auto
    then have "0 \<le> int j \<and> int j < int (length order) \<and> order ! nat (int j) = n \<and> idx n = Some (int j)"
      by simp
    then show ?thesis by blast
  qed
qed

text \<open>
  Claim C5. Let \<open>order\<close> be the ascending line numbers of the program table and \<open>idx\<close>
  the index map \<open>Run\<close> builds from it. A \<open>GotoStmt\<close>, and an \<open>IfStmt\<close> with a target line
  whose condition is a number other than zero, fails with the undefined-line error
  when the target is not a key of the table (no jump, no advance, the interpreter
  unchanged); when the target is a key, the next program counter is an index of that
  line in \<open>order\<close>.
\<close>

theorem jump_resolves_or_fails:
  assumes "order = OrderedLines (Prog it)" and "idx = build_lineIndex order 0 Map.empty"
  shows
   "(map_of (Stmts (Prog it)) target = None \<longrightarrow>
       execStmt L it (GotoStmt target) lineNo idx pc = (Inl (UndefinedLine target), it)) \<and>
    (map_of (Stmts (Prog it)) target \<noteq> None \<longrightarrow>
       (\<exists>i. 0 \<le> i \<and> i < int (length order) \<and> order ! nat i = target \<and>
            execStmt L it (GotoStmt target) lineNo idx pc = (Inr (i, False), it))) \<and>
    (evalExpr (Env it) cond = Inr c \<and> Kind c = ValNumber \<and> Num c \<noteq> 0 \<longrightarrow>
       (map_of (Stmts (Prog it)) target = None \<longrightarrow>
          execStmt L it (IfStmt cond thenStmt target True) lineNo idx pc
            = (Inl (UndefinedLine target), it)) \<and>
       (map_of (Stmts (Prog it)) target \<noteq> None \<longrightarrow>
          (\<exists>i. 0 \<le> i \<and> i < int (length order) \<and> order ! nat i = target \<and>
               execStmt L it (IfStmt cond thenStmt target True) lineNo idx pc
                 = (Inr (i, False), it))))"
proof -
  have none: "map_of (Stmts (Prog it)) target = None \<Longrightarrow> idx target = None"
    using lineIndex_of_program(1) [OF assms] .
  have some: "map_of (Stmts (Prog it)) target \<noteq> None \<Longrightarrow>
      \<exists>i. 0 \<le> i \<and> i < int (length order) \<and> order ! nat i = target \<and> idx target = Some i"
    using lineIndex_of_program(2) [OF assms] .
  show ?thesis
  proof (cases "map_of (Stmts (Prog it)) target = None")
    case True
    with none show ?thesis by simp
  next
    case False
    from some [OF False] obtain i where
      "0 \<le> i" "i < int (length order)" "order ! nat i = target" "idx target = Some i" by blast
    with False show ?thesis by auto
  qed
qed

text \<open>A concrete table: \<^verbatim>\<open>10 GOTO 20\<close>, \<^verbatim>\<open>20 END\<close>; line 30 does not exist.\<close>

lemma jump_program_order: "OrderedLines jump_program = [10, 20]"
  by (simp add: jump_program_def SetLine_def NewProgram_def OrderedLines_def)

lemma jump_program_lookup:
  "map_of (Stmts jump_program) 20 \<noteq> None" "map_of (Stmts jump_program) 30 = None"
  by (simp_all add: jump_program_def SetLine_def NewProgram_def)

theorem jump_resolves_or_fails_witness:
  "(\<exists>i. 0 \<le> i \<and> i < 2 \<and> [10, 20] ! nat i = (20::int) \<and>
       execStmt decimal_only (NewInterpreter jump_program [] []) (GotoStmt 20) 10
         (build_lineIndex [10, 20] 0 Map.empty) 0
       = (Inr (i, False), NewInterpreter jump_program [] [])) \<and>
   execStmt decimal_only (NewInterpreter jump_program [] []) (GotoStmt 30) 10
         (build_lineIndex [10, 20] 0 Map.empty) 0
       = (Inl (UndefinedLine 30), NewInterpreter jump_program [] []) \<and>
   (\<exists>i. 0 \<le> i \<and> i < 2 \<and> [10, 20] ! nat i = (20::int) \<and>
       execStmt decimal_only (NewInterpreter jump_program [] []) (IfStmt (NumberLit 1) None 20 True) 10
         (build_lineIndex [10, 20] 0 Map.empty) 0
       = (Inr (i, False), NewInterpreter jump_program [] [])) \<and>
   execStmt decimal_only (NewInterpreter jump_program [] []) (IfStmt (NumberLit 1) None 30 True) 10
         (build_lineIndex [10, 20] 0 Map.empty) 0
       = (Inl (UndefinedLine 30), NewInterpreter jump_program [] [])"
proof -
  let ?it = "NewInterpreter jump_program [] []"
  have o: "[10, 20] = OrderedLines (Prog ?it)"
    by (simp add: NewInterpreter_def jump_program_order)
  have p: "Prog ?it = jump_program" by (simp add: NewInterpreter_def)
  have c: "evalExpr (Env ?it) (NumberLit 1) = Inr (NumberValue 1) \<and>
           Kind (NumberValue 1) = ValNumber \<and> Num (NumberValue 1) \<noteq> 0"
    by (simp add: NumberValue_def)
  have a: "map_of (Stmts (Prog ?it)) 20 \<noteq> None" "map_of (Stmts (Prog ?it)) 30 = None"
    using jump_program_lookup by (simp_all add: p)
  from jump_resolves_or_fails [OF o refl, of 20 decimal_only 10 0 "NumberLit 1" "NumberValue 1" None] a(1) c
  have t20: "(\<exists>i. 0 \<le> i \<and> i < int (length [10, 20::int]) \<and> [10, 20] ! nat i = (20::int) \<and>
       execStmt decimal_only ?it (GotoStmt 20) 10 (build_lineIndex [10, 20] 0 Map.empty) 0
       = (Inr (i, False), ?it))"
    "(\<exists>i. 0 \<le> i \<and> i < int (length [10, 20::int]) \<and> [10, 20] ! nat i = (20::int) \<and>
       execStmt decimal_only ?it (IfStmt (NumberLit 1) None 20 True) 10 (build_lineIndex [10, 20] 0 Map.empty) 0
       = (Inr (i, False), ?it))"
    by blast+
  from jump_resolves_or_fails [OF o refl, of 30 decimal_only 10 0 "NumberLit 1" "NumberValue 1" None] a(2) c
  have t30: "execStmt decimal_only ?it (GotoStmt 30) 10 (build_lineIndex [10, 20] 0 Map.empty) 0
       = (Inl (UndefinedLine 30), ?it)"
     "execStmt decimal_only ?it (IfStmt (NumberLit 1) None 30 True) 10 (build_lineIndex [10, 20] 0 Map.empty) 0
       = (Inl (UndefinedLine 30), ?it)"
    by blast+
  from t20 t30 show ?thesis by simp
qed

subsection \<open>A failing PRINT\<close>

lemma evalParts_fails:
  "\<exists>e\<in>set es. isl (evalExpr env e) \<Longrightarrow> \<exists>err. evalParts L env es parts = Inl err"
  by (induction es arbitrary: parts) (auto split: sum.splits)

lemma div_zero_order: "OrderedLines div_zero_program = [10]"
  by (simp add: div_zero_program_def SetLine_def NewProgram_def OrderedLines_def)

lemma div_zero_eval:
  "evalExpr env (BinaryExpr ''/'' (NumberLit 1) (NumberLit 0)) = Inl DivisionByZero"
  by (simp add: evalBinary_def NumberValue_def)

text \<open>
  Claim C4. When the evaluation of an expression of a \<open>PrintStmt\<close> fails, \<open>execStmt\<close>
  returns an error and the interpreter it was given: nothing is written to \<open>Out\<close>. The
  program \<^verbatim>\<open>10 PRINT 1 / 0\<close> ends, after its first statement, with the division-by-zero
  error at line 10, and \<open>Out\<close> is what it was before the run.
\<close>

theorem PrintStmt_fails_without_output:
  "((\<exists>e\<in>set exprs. isl (evalExpr (Env it) e)) \<longrightarrow>
      (\<exists>err. execStmt L it (PrintStmt exprs) lineNo idx pc = (Inl err, it))) \<and>
   (\<exists>it'. Run (Suc n) L (NewInterpreter div_zero_program inp out)
            = Some (Some (RuntimeErrorAtLine 10 DivisionByZero), it') \<and> Out it' = out)"
proof -
  have 1: "(\<exists>e\<in>set exprs. isl (evalExpr (Env it) e)) \<longrightarrow>
      (\<exists>err. execStmt L it (PrintStmt exprs) lineNo idx pc = (Inl err, it))"
  proof
    assume a: "\<exists>e\<in>set exprs. isl (evalExpr (Env it) e)"
    then have "exprs \<noteq> []" by auto
    moreover from evalParts_fails [OF a] obtain err where
      "evalParts L (Env it) exprs [] = Inl err" by blast
    ultimately show "\<exists>err. execStmt L it (PrintStmt exprs) lineNo idx pc = (Inl err, it)"
      by simp
  qed
  have ex: "execStmt L it0 (PrintStmt [BinaryExpr ''/'' (NumberLit 1) (NumberLit 0)]) l i p
      = (Inl DivisionByZero, it0)" for it0 l i p
    by (simp add: evalBinary_def NumberValue_def)
  have lk: "map_of (Stmts div_zero_program) 10
      = Some (PrintStmt [BinaryExpr ''/'' (NumberLit 1) (NumberLit 0)])"
    by (simp add: div_zero_program_def SetLine_def NewProgram_def)
  have 2: "Run (Suc n) L (NewInterpreter div_zero_program inp out)
     = Some (Some (RuntimeErrorAtLine 10 DivisionByZero), NewInterpreter div_zero_program inp out)"
    by (simp add: Run_def div_zero_order NewInterpreter_def lk ex execStmt_nil_def
          Run_loop.simps [of "Suc n"] del: execStmt.simps)
  have 3: "Out (NewInterpreter div_zero_program inp out) = out" by (simp add: NewInterpreter_def)
  show ?thesis using 1 2 3 by blast
qed

theorem PrintStmt_fails_without_output_witness:
  "(\<exists>e\<in>set [BinaryExpr ''/'' (NumberLit 1) (NumberLit 0)].
      isl (evalExpr (Env (NewInterpreter div_zero_program [] [])) e)) \<and>
   (\<exists>err. execStmt decimal_only (NewInterpreter div_zero_program [] [])
            (PrintStmt [BinaryExpr ''/'' (NumberLit 1) (NumberLit 0)]) 10 Map.empty 0
          = (Inl err, NewInterpreter div_zero_program [] []))"
proof -
  have h: "\<exists>e\<in>set [BinaryExpr ''/'' (NumberLit 1) (NumberLit 0)].
      isl (evalExpr (Env (NewInterpreter div_zero_program [] [])) e)"
    by (simp add: evalBinary_def NumberValue_def)
  with PrintStmt_fails_without_output
    [of "[BinaryExpr ''/'' (NumberLit 1) (NumberLit 0)]" "NewInterpreter div_zero_program [] []"
        decimal_only 10 Map.empty 0]
  show ?thesis by blast
qed



subsection \<open>The run loop and its budget\<close>

lemma Run_loop_0:
  "Run_loop 0 L order idx pc ops it =
    (if \<not> (pc \<ge> 0 \<and> pc < int (length order)) then Some (None, it)
     else if MaxOps it > 0 \<and> ops + 1 > MaxOps it then Some (Some OperationLimitExceeded, it)
     else None)"
  by (simp add: Run_loop.simps [of 0])

lemma Run_loop_Suc:
  "Run_loop (Suc n) L order idx pc ops it =
    (if \<not> (pc \<ge> 0 \<and> pc < int (length order)) then Some (None, it)
     else if MaxOps it > 0 \<and> ops + 1 > MaxOps it then Some (Some OperationLimitExceeded, it)
     else case execStmt_nil L it (map_of (Stmts (Prog it)) (order ! nat pc)) (order ! nat pc) idx pc of
            (Inl err, it') \<Rightarrow> Some (Some (RuntimeErrorAtLine (order ! nat pc) err), it')
          | (Inr (nextPC, end), it') \<Rightarrow>
              if end then Some (None, it')
              else Run_loop n L order idx nextPC (if MaxOps it > 0 then ops + 1 else ops) it')"
  by (simp add: Run_loop.simps [of "Suc n"] Let_def)

lemma execStmt_keeps:
  "execStmt L it s lineNo idx pc = (r, it') \<Longrightarrow> Prog it' = Prog it \<and> MaxOps it' = MaxOps it"
  by (induction L it s lineNo idx pc rule: execStmt.induct)
     (auto simp: Let_def split: sum.splits option.splits prod.splits if_splits)


lemma execStmt_Out_eq:
  "execStmt L it s lineNo idx pc = with_out (Out it) (execStmt L (it\<lparr>Out := []\<rparr>) s lineNo idx pc)"
proof (induction L it s lineNo idx pc rule: execStmt.induct)
  case (5 L it cond thenStmt thenLine hasLine lineNo lineIndex pc)
  then show ?case
    by (auto simp: with_out_def split: sum.splits option.splits)
qed (auto simp: with_out_def Let_def split: sum.splits option.splits prod.splits)

lemma execStmt_nil_keeps:
  "execStmt_nil L it s lineNo idx pc = (r, it') \<Longrightarrow> Prog it' = Prog it \<and> MaxOps it' = MaxOps it"
  using execStmt_keeps by (auto simp: execStmt_nil_def split: option.splits)


lemma execStmt_nil_Out_eq:
  "execStmt_nil L it s lineNo idx pc
     = with_out (Out it) (execStmt_nil L (it\<lparr>Out := []\<rparr>) s lineNo idx pc)"
  using execStmt_Out_eq [of L it] by (auto simp: execStmt_nil_def with_out_def split: option.splits)




lemma Run_loop_no_limit_error:
  "MaxOps it \<le> 0 \<Longrightarrow> Run_loop fuel L order idx pc ops it \<noteq> Some (Some OperationLimitExceeded, it')"
proof (induction fuel arbitrary: pc ops it)
  case 0
  then show ?case by (simp add: Run_loop_0)
next
  case (Suc fuel)
  show ?case
  proof (cases "execStmt_nil L it (map_of (Stmts (Prog it)) (order ! nat pc)) (order ! nat pc) idx pc")
    case (Pair r it1)
    then have k: "MaxOps it1 = MaxOps it" using execStmt_nil_keeps by blast
    show ?thesis
    proof (cases r)
      case (Inl err)
      with Pair Suc.prems show ?thesis by (simp add: Run_loop_Suc)
    next
      case (Inr b)
      obtain nextPC fin where b: "b = (nextPC, fin)" by (cases b)
      have "Run_loop fuel L order idx nextPC ops it1 \<noteq> Some (Some OperationLimitExceeded, it')"
        using Suc.IH [of it1 nextPC ops] Suc.prems k by simp
      with Pair Inr b Suc.prems show ?thesis by (simp add: Run_loop_Suc)
    qed
  qed
qed

lemma self_loop_order: "OrderedLines self_loop_program = [10]"
  by (simp add: self_loop_program_def SetLine_def NewProgram_def OrderedLines_def)

lemma self_loop_never_ends:
  "MaxOps it \<le> 0 \<Longrightarrow> map_of (Stmts (Prog it)) 10 = Some (GotoStmt 10) \<Longrightarrow> idx 10 = Some 0 \<Longrightarrow>
   Run_loop fuel L [10] idx 0 ops it = None"
proof (induction fuel arbitrary: ops)
  case 0
  then show ?case by (simp add: Run_loop_0)
next
  case (Suc fuel)
  then have "execStmt_nil L it (map_of (Stmts (Prog it)) ([10] ! nat 0)) ([10] ! nat 0) idx 0
      = (Inr (0, False), it)"
    by (simp add: execStmt_nil_def)
  with Suc show ?case by (simp add: Run_loop_Suc)
qed

lemma Run_loop_keeps:
  "Run_loop fuel L order idx pc ops it = Some (r, it') \<Longrightarrow>
   Prog it' = Prog it \<and> MaxOps it' = MaxOps it"
proof (induction fuel arbitrary: pc ops it)
  case 0
  then show ?case by (auto simp: Run_loop_0 split: if_splits)
next
  case (Suc fuel)
  show ?case
  proof (cases "execStmt_nil L it (map_of (Stmts (Prog it)) (order ! nat pc)) (order ! nat pc) idx pc")
    case (Pair r1 it1)
    then have k: "Prog it1 = Prog it \<and> MaxOps it1 = MaxOps it" using execStmt_nil_keeps by blast
    show ?thesis
    proof (cases r1)
      case (Inl err)
      with Pair Suc.prems k show ?thesis by (auto simp: Run_loop_Suc split: if_splits)
    next
      case (Inr b)
      obtain nextPC fin where b: "b = (nextPC, fin)" by (cases b)
      with Pair Inr Suc.prems k Suc.IH show ?thesis
        by (auto simp: Run_loop_Suc split: if_splits)
    qed
  qed
qed

lemma Run_loop_Out_eq:
  "Run_loop fuel L order idx pc ops it
     = run_with_out (Out it) (Run_loop fuel L order idx pc ops (it\<lparr>Out := []\<rparr>))"
proof (induction fuel arbitrary: pc ops it)
  case 0
  then show ?case by (simp add: Run_loop_0 run_with_out_def)
next
  case (Suc fuel)
  show ?case
  proof (cases "execStmt_nil L (it\<lparr>Out := []\<rparr>) (map_of (Stmts (Prog it)) (order ! nat pc)) (order ! nat pc) idx pc")
    case (Pair r1 it1)
    then have e: "execStmt_nil L it (map_of (Stmts (Prog it)) (order ! nat pc)) (order ! nat pc) idx pc
        = (r1, it1\<lparr>Out := Out it @ Out it1\<rparr>)"
      using execStmt_nil_Out_eq [of L it] by (simp add: with_out_def)
    show ?thesis
    proof (cases r1)
      case (Inl err)
      with Pair e show ?thesis by (simp add: Run_loop_Suc run_with_out_def)
    next
      case (Inr b)
      obtain nextPC fin where b: "b = (nextPC, fin)" by (cases b)
      have 1: "Run_loop fuel L order idx nextPC k (it1\<lparr>Out := Out it @ Out it1\<rparr>)
          = run_with_out (Out it @ Out it1) (Run_loop fuel L order idx nextPC k (it1\<lparr>Out := []\<rparr>))" for k
        using Suc.IH [of nextPC k "it1\<lparr>Out := Out it @ Out it1\<rparr>"] by simp
      have 2: "Run_loop fuel L order idx nextPC k it1
          = run_with_out (Out it1) (Run_loop fuel L order idx nextPC k (it1\<lparr>Out := []\<rparr>))" for k
        using Suc.IH [of nextPC k it1] by simp
      have 3: "run_with_out a (run_with_out c x) = run_with_out (a @ c) x" for a c x
        by (cases x) (auto simp: run_with_out_def)
      have 4: "run_with_out a (Some (r, x)) = Some (r, x\<lparr>Out := a @ Out x\<rparr>)"
        "run_with_out a None = None" for a r x
        by (simp_all add: run_with_out_def)
      from Pair e Inr b show ?thesis
        by (simp add: Run_loop_Suc 1 4) (simp add: 2 3)
    qed
  qed
qed


lemma Run_eq:
  "Run fuel L it =
    (if OrderedLines (Prog it) = [] then Some (None, it)
     else Run_loop fuel L (OrderedLines (Prog it))
            (build_lineIndex (OrderedLines (Prog it)) 0 Map.empty) 0 0 it)"
  by (simp add: Run_def Let_def)


lemma self_loop_lookup: "map_of (Stmts self_loop_program) 10 = Some (GotoStmt 10)"
  by (simp add: self_loop_program_def SetLine_def NewProgram_def)


text \<open>
  Claim C10. With \<open>MaxOps\<close> zero or negative the budget test is skipped: \<open>Run\<close> never
  returns the operation-limit error, and on the program \<^verbatim>\<open>10 GOTO 10\<close> no number of
  statement executions lets it return.
\<close>

theorem Run_without_budget_unbounded:
  "MaxOps it \<le> 0 \<longrightarrow>
     (\<forall>fuel it'. Run fuel L it \<noteq> Some (Some OperationLimitExceeded, it')) \<and>
     (Prog it = self_loop_program \<longrightarrow> (\<forall>fuel. Run fuel L it = None))"
proof
  assume m: "MaxOps it \<le> 0"
  have a: "Run fuel L it \<noteq> Some (Some OperationLimitExceeded, it')" for fuel it'
    using Run_loop_no_limit_error [OF m] by (simp add: Run_eq)
  have b: "Run fuel L it = None" if "Prog it = self_loop_program" for fuel
    using self_loop_never_ends [OF m, of "build_lineIndex [10] 0 Map.empty" fuel L 0] that
    by (simp add: Run_eq self_loop_order self_loop_lookup)
  from a b show "(\<forall>fuel it'. Run fuel L it \<noteq> Some (Some OperationLimitExceeded, it')) \<and>
     (Prog it = self_loop_program \<longrightarrow> (\<forall>fuel. Run fuel L it = None))" by blast
qed

theorem Run_without_budget_unbounded_witness:
  "MaxOps ((NewInterpreter self_loop_program [] [])\<lparr>MaxOps := 0\<rparr>) \<le> 0 \<and>
   Prog ((NewInterpreter self_loop_program [] [])\<lparr>MaxOps := 0\<rparr>) = self_loop_program \<and>
   Run 1000000 decimal_only ((NewInterpreter self_loop_program [] [])\<lparr>MaxOps := 0\<rparr>) = None \<and>
   MaxOps ((NewInterpreter self_loop_program [] [])\<lparr>MaxOps := - 1\<rparr>) \<le> 0 \<and>
   Run 1000001 decimal_only ((NewInterpreter self_loop_program [] [])\<lparr>MaxOps := - 1\<rparr>) = None"
proof -
  let ?a = "(NewInterpreter self_loop_program [] [])\<lparr>MaxOps := 0\<rparr>"
  let ?b = "(NewInterpreter self_loop_program [] [])\<lparr>MaxOps := - 1\<rparr>"
  have h: "MaxOps ?a \<le> 0" "Prog ?a = self_loop_program" "MaxOps ?b \<le> 0" "Prog ?b = self_loop_program"
    by (simp_all add: NewInterpreter_def)
  from Run_without_budget_unbounded [of ?a decimal_only] h(1,2)
  have 1: "Run 1000000 decimal_only ?a = None" by blast
  from Run_without_budget_unbounded [of ?b decimal_only] h(3,4)
  have 2: "Run 1000001 decimal_only ?b = None" by blast
  from h 1 2 show ?thesis by blast
qed


subsection \<open>Running twice\<close>

lemma echo_order: "OrderedLines echo_program = [10, 20]"
  by (simp add: echo_program_def SetLine_def NewProgram_def OrderedLines_def)

lemma echo_lookup:
  "map_of (Stmts echo_program) 10 = Some (InputStmt ''A$'')"
  "map_of (Stmts echo_program) 20 = Some (PrintStmt [VarRef ''A$''])"
  by (simp_all add: echo_program_def SetLine_def NewProgram_def)

lemma name_A: "ToUpper ''A$'' = ''A$''" "HasSuffix ''A$'' ''$''"
  by (simp_all add: ToUpper_def upper_byte_def HasSuffix_def)

lemma echo_input_step:
  "execStmt L (it\<lparr>In := c # LF # rest\<rparr>) (InputStmt ''A$'') lineNo idx pc
     = (Inr (pc + 1, False),
        it\<lparr>In := rest, Out := Out it @ ''? '',
           Env := (Env it)\<lparr>StrVars := (StrVars (Env it))(''A$'' \<mapsto> [c])\<rparr>\<rparr>)"
  if "c \<noteq> LF" "c \<noteq> CR"
  using that
  by (simp add: ReadString_def TrimRight_def name_A Set_def StringValue_def Let_def)

lemma echo_print_step:
  "execStmt L it (PrintStmt [VarRef ''A$'']) lineNo idx pc
     = (Inr (pc + 1, False),
        it\<lparr>Out := Out it @ (case StrVars (Env it) ''A$'' of None \<Rightarrow> [] | Some s \<Rightarrow> s) @ [LF]\<rparr>)"
  by (simp add: Get_def name_A StringValue_def Value_String_def)

lemma echo_run:
  assumes "Prog it = echo_program" "c \<noteq> LF" "c \<noteq> CR" "MaxOps it = 1000000"
  shows "Run 2 L (ResetEnv (it\<lparr>In := c # LF # rest\<rparr>))
     = Some (None, it\<lparr>In := rest, Out := Out it @ ''? '' @ [c] @ [LF],
           Env := \<lparr>NumVars = Map.empty, StrVars = [''A$'' \<mapsto> [c]]\<rparr>\<rparr>)"
proof -
  have 2: "(2::nat) = Suc (Suc 0)" by simp
  have r: "ResetEnv (it\<lparr>In := c # LF # rest\<rparr>) = (it\<lparr>Env := NewEnv\<rparr>)\<lparr>In := c # LF # rest\<rparr>"
    by (simp add: ResetEnv_def)
  show ?thesis
    unfolding 2 r
    using assms
    by (simp add: Run_eq echo_order echo_lookup Run_loop_Suc Run_loop_0 execStmt_nil_def
          echo_input_step echo_print_step NewEnv_def del: execStmt.simps)
qed


lemma echo_first_run:
  "Run 2 L (ResetEnv echo_start) = Some (None, echo_after_first)"
proof -
  have c: "CHR ''a'' \<noteq> LF" "CHR ''a'' \<noteq> CR" by (simp_all add: LF_def CR_def)
  have s: "echo_start = echo_start\<lparr>In := CHR ''a'' # LF # (''b'' @ [LF])\<rparr>"
    by (simp add: echo_start_def NewInterpreter_def)
  have p: "Prog echo_start = echo_program" "MaxOps echo_start = 1000000"
    by (simp_all add: echo_start_def NewInterpreter_def)
  show ?thesis
    by (subst s, subst echo_run [OF p(1) c p(2)])
       (simp add: echo_start_def echo_after_first_def NewInterpreter_def)
qed

lemma echo_second_run:
  "Run 2 L (ResetEnv echo_after_first) = Some (None, echo_after_second)"
proof -
  have c: "CHR ''b'' \<noteq> LF" "CHR ''b'' \<noteq> CR" by (simp_all add: LF_def CR_def)
  have s: "echo_after_first = echo_after_first\<lparr>In := CHR ''b'' # LF # []\<rparr>"
    by (simp add: echo_after_first_def)
  have p: "Prog echo_after_first = echo_program" "MaxOps echo_after_first = 1000000"
    by (simp_all add: echo_start_def echo_after_first_def NewInterpreter_def)
  show ?thesis
    by (subst s, subst echo_run [OF p(1) c p(2)])
       (simp add: echo_start_def echo_after_first_def echo_after_second_def NewInterpreter_def)
qed

text \<open>
  Claim C9, as stated, fails: a run of \<^verbatim>\<open>10 INPUT A$\<close>, \<^verbatim>\<open>20 PRINT A$\<close> consumes a line
  of the reader, which \<open>ResetEnv\<close> does not restore. With the lines \<^verbatim>\<open>a\<close> and \<^verbatim>\<open>b\<close>
  waiting, the first run writes \<^verbatim>\<open>? a\<close> and the second, started after \<open>ResetEnv\<close>,
  writes \<^verbatim>\<open>? b\<close>.
\<close>

theorem rerun_output_differs:
  "Run 2 decimal_only (ResetEnv echo_start) = Some (None, echo_after_first) \<and>
   Out echo_after_first = Out echo_start @ ''? a'' @ [LF] \<and>
   Run 2 decimal_only (ResetEnv echo_after_first) = Some (None, echo_after_second) \<and>
   Out echo_after_second = Out echo_after_first @ ''? b'' @ [LF] \<and>
   ''? a'' @ [LF] \<noteq> ''? b'' @ [LF]"
proof -
  have 3: "Out echo_after_first = Out echo_start @ ''? a'' @ [LF]"
    "Out echo_after_second = Out echo_after_first @ ''? b'' @ [LF]"
    by (simp_all add: echo_start_def echo_after_first_def echo_after_second_def NewInterpreter_def)
  from echo_first_run echo_second_run 3 show ?thesis by simp
qed

lemma execStmt_no_input:
  "no_input_stmt s \<Longrightarrow> execStmt L it s lineNo idx pc = (r, it') \<Longrightarrow> In it' = In it"
  by (induction L it s lineNo idx pc rule: execStmt.induct)
     (auto simp: Let_def split: sum.splits option.splits prod.splits if_splits)

lemma Run_loop_no_input:
  "no_input (Prog it) \<Longrightarrow> Run_loop fuel L order idx pc ops it = Some (r, it') \<Longrightarrow> In it' = In it"
proof (induction fuel arbitrary: pc ops it)
  case 0
  then show ?case by (auto simp: Run_loop_0 split: if_splits)
next
  case (Suc fuel)
  let ?s = "map_of (Stmts (Prog it)) (order ! nat pc)"
  show ?case
  proof (cases "execStmt_nil L it ?s (order ! nat pc) idx pc")
    case (Pair r1 it1)
    then have k: "Prog it1 = Prog it" using execStmt_nil_keeps by blast
    have i: "In it1 = In it"
    proof (cases ?s)
      case None
      with Pair show ?thesis by (simp add: execStmt_nil_def)
    next
      case (Some s)
      then have "(order ! nat pc, s) \<in> set (Stmts (Prog it))" by (rule map_of_SomeD)
      with Suc.prems(1) have "no_input_stmt s"
        by (auto simp: no_input_def list_all_iff)
      with Pair Some show ?thesis using execStmt_no_input by (simp add: execStmt_nil_def)
    qed
    show ?thesis
    proof (cases r1)
      case (Inl err)
      with Pair Suc.prems i show ?thesis by (auto simp: Run_loop_Suc split: if_splits)
    next
      case (Inr b)
      obtain nextPC fin where b: "b = (nextPC, fin)" by (cases b)
      with Pair Inr Suc.prems k i Suc.IH [of it1] show ?thesis
        by (auto simp: Run_loop_Suc split: if_splits)
    qed
  qed
qed

lemma run_with_out_Some:
  "run_with_out a x = Some (r, y) \<Longrightarrow> \<exists>z. x = Some (r, z) \<and> y = z\<lparr>Out := a @ Out z\<rparr>"
  by (cases x) (auto simp: run_with_out_def)

lemma Run_Out_eq: "Run fuel L it = run_with_out (Out it) (Run fuel L (it\<lparr>Out := []\<rparr>))"
  using Run_loop_Out_eq [of fuel L _ _ 0 0 it]
  by (simp add: Run_eq run_with_out_def)

lemma Run_keeps: "Run fuel L it = Some (r, it') \<Longrightarrow> Prog it' = Prog it \<and> MaxOps it' = MaxOps it"
  using Run_loop_keeps by (auto simp: Run_eq split: if_splits)

lemma Run_no_input: "no_input (Prog it) \<Longrightarrow> Run fuel L it = Some (r, it') \<Longrightarrow> In it' = In it"
  using Run_loop_no_input by (auto simp: Run_eq split: if_splits)

lemma rerun_same_input:
  assumes "Run fuel L (ResetEnv it) = Some (r, it1)"
  shows "\<exists>w it2. Out it1 = Out it @ w \<and>
            Run fuel L (ResetEnv (it1\<lparr>In := In it\<rparr>)) = Some (r, it2) \<and> Out it2 = Out it1 @ w"
proof -
  let ?base = "Run fuel L ((ResetEnv it)\<lparr>Out := []\<rparr>)"
  have "run_with_out (Out it) ?base = Some (r, it1)"
    using assms Run_Out_eq [of fuel L "ResetEnv it"] by (simp add: ResetEnv_def)
  from run_with_out_Some [OF this] obtain z where
    z: "?base = Some (r, z)" "it1 = z\<lparr>Out := Out it @ Out z\<rparr>" by blast
  from Run_keeps [OF assms] have k: "Prog it1 = Prog it" "MaxOps it1 = MaxOps it"
    by (simp_all add: ResetEnv_def)
  have s: "(ResetEnv (it1\<lparr>In := In it\<rparr>))\<lparr>Out := []\<rparr> = (ResetEnv it)\<lparr>Out := []\<rparr>"
    using k by (simp add: ResetEnv_def)
  have "Run fuel L (ResetEnv (it1\<lparr>In := In it\<rparr>))
          = run_with_out (Out it1) (Run fuel L ((ResetEnv (it1\<lparr>In := In it\<rparr>))\<lparr>Out := []\<rparr>))"
    using Run_Out_eq [of fuel L "ResetEnv (it1\<lparr>In := In it\<rparr>)"] by (simp add: ResetEnv_def)
  also have "\<dots> = Some (r, z\<lparr>Out := Out it1 @ Out z\<rparr>)"
    unfolding s z(1) by (simp add: run_with_out_def)
  finally have "Run fuel L (ResetEnv (it1\<lparr>In := In it\<rparr>)) = Some (r, z\<lparr>Out := Out it1 @ Out z\<rparr>)" .
  moreover have "Out it1 = Out it @ Out z" using z(2) by simp
  ultimately show ?thesis by auto
qed

text \<open>
  Claim C9, amended. A completed run leaves the program table as it was, and a second
  run, started after \<open>ResetEnv\<close> from the interpreter the first run left, returns the
  same result and writes the same output as the first, provided that its reader
  holds the text the reader of the first run held; for a program without
  \<open>InputStmt\<close> the reader is not touched, so there the two runs in succession agree.
  The environment and the earlier output of the first run have no influence.
\<close>

theorem rerun_same_output_on_same_input:
  "Run fuel L (ResetEnv it) = Some (r, it1) \<longrightarrow>
     Prog it1 = Prog it \<and>
     (\<exists>w it2. Out it1 = Out it @ w \<and>
        Run fuel L (ResetEnv (it1\<lparr>In := In it\<rparr>)) = Some (r, it2) \<and> Out it2 = Out it1 @ w) \<and>
     (no_input (Prog it) \<longrightarrow>
        (\<exists>w it2. Out it1 = Out it @ w \<and>
           Run fuel L (ResetEnv it1) = Some (r, it2) \<and> Out it2 = Out it1 @ w))"
proof
  assume a: "Run fuel L (ResetEnv it) = Some (r, it1)"
  have 1: "Prog it1 = Prog it" using Run_keeps [OF a] by (simp add: ResetEnv_def)
  have 2: "\<exists>w it2. Out it1 = Out it @ w \<and>
        Run fuel L (ResetEnv (it1\<lparr>In := In it\<rparr>)) = Some (r, it2) \<and> Out it2 = Out it1 @ w"
    using rerun_same_input [OF a] .
  have 3: "\<exists>w it2. Out it1 = Out it @ w \<and>
           Run fuel L (ResetEnv it1) = Some (r, it2) \<and> Out it2 = Out it1 @ w"
    if "no_input (Prog it)"
  proof -
    have "In it1 = In it" using Run_no_input [of "ResetEnv it" fuel L r it1] that a
      by (simp add: ResetEnv_def)
    then have "it1\<lparr>In := In it\<rparr> = it1" by simp
    with 2 show ?thesis by simp
  qed
  from 1 2 3 show "Prog it1 = Prog it \<and>
     (\<exists>w it2. Out it1 = Out it @ w \<and>
        Run fuel L (ResetEnv (it1\<lparr>In := In it\<rparr>)) = Some (r, it2) \<and> Out it2 = Out it1 @ w) \<and>
     (no_input (Prog it) \<longrightarrow>
        (\<exists>w it2. Out it1 = Out it @ w \<and>
           Run fuel L (ResetEnv it1) = Some (r, it2) \<and> Out it2 = Out it1 @ w))" by blast
qed


lemma jump_run:
  "Run 2 L (ResetEnv (NewInterpreter jump_program [] [])) = Some (None, NewInterpreter jump_program [] [])"
proof -
  have 2: "(2::nat) = Suc (Suc 0)" by simp
  have l: "map_of (Stmts jump_program) 10 = Some (GotoStmt 20)"
    "map_of (Stmts jump_program) 20 = Some EndStmt"
    by (simp_all add: jump_program_def SetLine_def NewProgram_def)
  show ?thesis
    unfolding 2
    by (simp add: Run_eq jump_program_order ResetEnv_def NewInterpreter_def l Run_loop_Suc
          execStmt_nil_def)
qed

theorem rerun_same_output_on_same_input_witness:
  "Run 2 decimal_only (ResetEnv echo_start) = Some (None, echo_after_first) \<and>
   (\<exists>w it2. Out echo_after_first = Out echo_start @ w \<and>
      Run 2 decimal_only (ResetEnv (echo_after_first\<lparr>In := In echo_start\<rparr>)) = Some (None, it2) \<and>
      Out it2 = Out echo_after_first @ w) \<and>
   Run 2 decimal_only (ResetEnv (NewInterpreter jump_program [] []))
     = Some (None, NewInterpreter jump_program [] []) \<and>
   no_input (Prog (NewInterpreter jump_program [] [])) \<and>
   (\<exists>w it2. Out (NewInterpreter jump_program [] []) = Out (NewInterpreter jump_program [] []) @ w \<and>
      Run 2 decimal_only (ResetEnv (NewInterpreter jump_program [] [])) = Some (None, it2) \<and>
      Out it2 = Out (NewInterpreter jump_program [] []) @ w)"
proof -
  have n: "no_input (Prog (NewInterpreter jump_program [] []))"
    by (simp add: no_input_def NewInterpreter_def jump_program_def SetLine_def NewProgram_def)
  have a: "\<exists>w it2. Out echo_after_first = Out echo_start @ w \<and>
      Run 2 decimal_only (ResetEnv (echo_after_first\<lparr>In := In echo_start\<rparr>)) = Some (None, it2) \<and>
      Out it2 = Out echo_after_first @ w"
    using rerun_same_output_on_same_input [of 2 decimal_only echo_start None echo_after_first]
      echo_first_run [of decimal_only] by blast
  have b: "\<exists>w it2. Out (NewInterpreter jump_program [] []) = Out (NewInterpreter jump_program [] []) @ w \<and>
      Run 2 decimal_only (ResetEnv (NewInterpreter jump_program [] [])) = Some (None, it2) \<and>
      Out it2 = Out (NewInterpreter jump_program [] []) @ w"
    using rerun_same_output_on_same_input [of 2 decimal_only "NewInterpreter jump_program [] []" None
        "NewInterpreter jump_program [] []"] jump_run [of decimal_only] n by blast
  from a b n echo_first_run [of decimal_only] jump_run [of decimal_only] show ?thesis by blast
qed


subsection \<open>Parsing expressions\<close>

text \<open>Unfolding sets for running the lexer and the parser on a given text.\<close>

lemmas lexer_eval = NewParser_def NewLexer_def nextToken_def NextToken_def cur_ch_def readChar_def
  peekChar_def readNumber_def readIdentifier_def readString_def isDigit_def isLetter_def NUL_def
  DQUOTE_def CR_def LF_def Let_def LookupIdent_def keywords_table_def ToUpper_def upper_byte_def

lemmas parser_eval = peekPrecedence_def curPrecedence_def precedences_def LOWEST_def COMPARE_def
  SUM_prec_def PRODUCT_def PREFIX_def is_infix_operator_def addErr_def

lemmas number_eval = ParseFloat_def decimal_literal_def digits_val_def digit_val_def

lemma fuel8: "8 + k = Suc (Suc (Suc (Suc (Suc (Suc (Suc (Suc k)))))))" by simp

lemma parse_1_2_3:
  "parseExpr (8 + k) L LOWEST (NewParser ''1 + 2 * 3'')
     = Some (Some (BinaryExpr ''+'' (NumberLit 1) (BinaryExpr ''*'' (NumberLit 2) (NumberLit 3))),
             \<lparr>lex = [], curTok = \<lparr>Type = NUMBER, Literal = ''3''\<rparr>,
              peekTok = \<lparr>Type = EOF, Literal = []\<rparr>, errors = []\<rparr>)"
  unfolding fuel8
  by (simp add: lexer_eval parser_eval number_eval)

lemma parse_2_3_4:
  "parseExpr (8 + k) L LOWEST (NewParser ''2 - 3 - 4'')
     = Some (Some (BinaryExpr ''-'' (BinaryExpr ''-'' (NumberLit 2) (NumberLit 3)) (NumberLit 4)),
             \<lparr>lex = [], curTok = \<lparr>Type = NUMBER, Literal = ''4''\<rparr>,
              peekTok = \<lparr>Type = EOF, Literal = []\<rparr>, errors = []\<rparr>)"
  unfolding fuel8
  by (simp add: lexer_eval parser_eval number_eval)

lemma eval_1_2_3:
  "evalExpr env (BinaryExpr ''+'' (NumberLit 1) (BinaryExpr ''*'' (NumberLit 2) (NumberLit 3)))
     = Inr (NumberValue 7)"
  by (simp add: evalBinary_def NumberValue_def)

lemma eval_2_3_4:
  "evalExpr env (BinaryExpr ''-'' (BinaryExpr ''-'' (NumberLit 2) (NumberLit 3)) (NumberLit 4))
     = Inr (NumberValue (- 5))"
  by (simp add: evalBinary_def NumberValue_def)

text \<open>
  Claim C3. With fuel 8 or more, \<open>parseExpr\<close> at the lowest binding power reads
  \<^verbatim>\<open>1 + 2 * 3\<close> as \<^verbatim>\<open>1 + (2 * 3)\<close>, which evaluates to 7 (and not to 9), and
  \<^verbatim>\<open>2 - 3 - 4\<close> as \<^verbatim>\<open>(2 - 3) - 4\<close>, which evaluates to -5 (and not to 3); no error is
  recorded.
\<close>

theorem parseExpr_precedence_and_associativity:
  "(\<exists>p'. parseExpr (8 + k) L LOWEST (NewParser ''1 + 2 * 3'')
           = Some (Some (BinaryExpr ''+'' (NumberLit 1) (BinaryExpr ''*'' (NumberLit 2) (NumberLit 3))), p')
         \<and> errors p' = []) \<and>
   evalExpr env (BinaryExpr ''+'' (NumberLit 1) (BinaryExpr ''*'' (NumberLit 2) (NumberLit 3)))
     = Inr (NumberValue 7) \<and>
   NumberValue 7 \<noteq> NumberValue 9 \<and>
   (\<exists>p'. parseExpr (8 + k) L LOWEST (NewParser ''2 - 3 - 4'')
           = Some (Some (BinaryExpr ''-'' (BinaryExpr ''-'' (NumberLit 2) (NumberLit 3)) (NumberLit 4)), p')
         \<and> errors p' = []) \<and>
   evalExpr env (BinaryExpr ''-'' (BinaryExpr ''-'' (NumberLit 2) (NumberLit 3)) (NumberLit 4))
     = Inr (NumberValue (- 5)) \<and>
   NumberValue (- 5) \<noteq> NumberValue 3"
proof (intro conjI)
  show "NumberValue 7 \<noteq> NumberValue 9" "NumberValue (- 5) \<noteq> NumberValue 3"
    by (simp_all add: NumberValue_def)
  show "\<exists>p'. parseExpr (8 + k) L LOWEST (NewParser ''1 + 2 * 3'')
           = Some (Some (BinaryExpr ''+'' (NumberLit 1) (BinaryExpr ''*'' (NumberLit 2) (NumberLit 3))), p')
         \<and> errors p' = []"
    by (subst parse_1_2_3) simp
  show "\<exists>p'. parseExpr (8 + k) L LOWEST (NewParser ''2 - 3 - 4'')
           = Some (Some (BinaryExpr ''-'' (BinaryExpr ''-'' (NumberLit 2) (NumberLit 3)) (NumberLit 4)), p')
         \<and> errors p' = []"
    by (subst parse_2_3_4) simp
  show "evalExpr env (BinaryExpr ''+'' (NumberLit 1) (BinaryExpr ''*'' (NumberLit 2) (NumberLit 3)))
     = Inr (NumberValue 7)"
    by (rule eval_1_2_3)
  show "evalExpr env (BinaryExpr ''-'' (BinaryExpr ''-'' (NumberLit 2) (NumberLit 3)) (NumberLit 4))
     = Inr (NumberValue (- 5))"
    by (rule eval_2_3_4)
qed

theorem parseExpr_precedence_and_associativity_witness:
  "(\<exists>p'. parseExpr 8 decimal_only LOWEST (NewParser ''1 + 2 * 3'')
           = Some (Some (BinaryExpr ''+'' (NumberLit 1) (BinaryExpr ''*'' (NumberLit 2) (NumberLit 3))), p')) \<and>
   evalExpr NewEnv (BinaryExpr ''+'' (NumberLit 1) (BinaryExpr ''*'' (NumberLit 2) (NumberLit 3)))
     = Inr (NumberValue 7) \<and>
   (\<exists>p'. parseExpr 8 decimal_only LOWEST (NewParser ''2 - 3 - 4'')
           = Some (Some (BinaryExpr ''-'' (BinaryExpr ''-'' (NumberLit 2) (NumberLit 3)) (NumberLit 4)), p')) \<and>
   evalExpr NewEnv (BinaryExpr ''-'' (BinaryExpr ''-'' (NumberLit 2) (NumberLit 3)) (NumberLit 4))
     = Inr (NumberValue (- 5))"
proof -
  have z: "8 + 0 = (8::nat)" by simp
  from parseExpr_precedence_and_associativity [of 0 decimal_only NewEnv]
  show ?thesis unfolding z by blast
qed

subsection \<open>Reading back the text of a statement\<close>

lemma fuel4: "4 + k = Suc (Suc (Suc (Suc k)))" by simp

lemma backslash_parse:
  "ParseStatement (4 + k) L (NewParser backslash_source)
     = Some (Some backslash_stmt, end_state \<lparr>Type = STRING, Literal = ''a'' @ [BACKSLASH] @ ''b''\<rparr>)"
  unfolding fuel4
  by (simp add: backslash_source_def backslash_stmt_def end_state_def BACKSLASH_def
        parsePrintStmt_def lexer_eval parser_eval)

lemma backslash_string: "Stmt_String L backslash_stmt = Some backslash_text"
  by (simp add: backslash_stmt_def backslash_text_def Quote_def Quote_byte_def
        BACKSLASH_def DQUOTE_def)

lemma backslash_reparse:
  "ParseStatement (4 + k) L (NewParser backslash_text)
     = Some (Some backslash_reparsed,
             end_state \<lparr>Type = STRING, Literal = ''a'' @ [BACKSLASH, BACKSLASH] @ ''b''\<rparr>)"
  unfolding fuel4
  by (simp add: backslash_text_def backslash_reparsed_def end_state_def BACKSLASH_def
        parsePrintStmt_def lexer_eval parser_eval)

text \<open>
  Claim C6, as stated, fails. The parser reads \<^verbatim>\<open>PRINT "a\b"\<close> as a \<open>PrintStmt\<close> of the
  string literal \<^verbatim>\<open>a\b\<close>; its text is \<^verbatim>\<open>PRINT "a\\b"\<close>, since \<open>Quote\<close> writes the backslash
  twice; the lexer has no escapes, so that text parses to the literal \<^verbatim>\<open>a\\b\<close>.
\<close>

theorem stringified_backslash_reads_back_differently:
  "ParseStatement 4 decimal_only (NewParser backslash_source)
     = Some (Some backslash_stmt, end_state \<lparr>Type = STRING, Literal = ''a'' @ [BACKSLASH] @ ''b''\<rparr>) \<and>
   Stmt_String decimal_only backslash_stmt = Some backslash_text \<and>
   ParseStatement 4 decimal_only (NewParser backslash_text)
     = Some (Some backslash_reparsed,
             end_state \<lparr>Type = STRING, Literal = ''a'' @ [BACKSLASH, BACKSLASH] @ ''b''\<rparr>) \<and>
   backslash_reparsed \<noteq> backslash_stmt"
proof -
  have z: "4 + 0 = (4::nat)" by simp
  have d: "backslash_reparsed \<noteq> backslash_stmt"
    by (simp add: backslash_reparsed_def backslash_stmt_def)
  from backslash_parse [of 0 decimal_only] backslash_string [of decimal_only]
    backslash_reparse [of 0 decimal_only] d
  show ?thesis unfolding z by simp
qed

end
